theory Spec2Isabelle
  imports Complex_Main "HOL-Library.Log_Nat"
begin

section \<open>Values of the host language\<close>

text \<open>
  \<^verbatim>\<open>calculator.py\<close> evaluates Python expressions over Python's own numbers. An \<open>int\<close> is
  unbounded; a \<open>bool\<close> is a subclass of \<open>int\<close>; a \<open>float\<close> is a binary64 value, kept here
  by the rational it denotes (every finite float is one), with the signed zero, the
  infinities and NaN apart. What a float operation rounds to is the host's business and
  is a parameter of the model (\<open>host\<close> below); only the operations that are exact on
  the represented value (sign, zero test, integrality, truncation) are written out.
\<close>

datatype pyfloat = Finite rat | NegZero | PosInf | NegInf | NaN

datatype pyval =
    VInt int
  | VBool bool
  | VFloat pyfloat
  | VComplex pyfloat pyfloat
  | VFunc string
  | VTuple "pyval list"

text \<open>
  The exceptions that can leave \<^verbatim>\<open>evaluate\<close>. Every \<^verbatim>\<open>raise\<close> of the source is a
  \<open>ValueError\<close> with its message; the others are raised by the host's arithmetic and
  built-in functions.
\<close>

datatype error =
  ValueError string | ZeroDivisionError | OverflowError | TypeError | MemoryError

section \<open>The syntax tree of the \<^verbatim>\<open>ast\<close> module\<close>

text \<open>
  The node classes the source tests with \<^verbatim>\<open>isinstance\<close>, and \<open>Other\<close> for every other
  class of expression node (\<^verbatim>\<open>Compare\<close>, \<^verbatim>\<open>BoolOp\<close>, \<^verbatim>\<open>Lambda\<close>, \<^verbatim>\<open>IfExp\<close>, \<^verbatim>\<open>List\<close>, ...)
  with its class name and child nodes. \<open>Pow_op\<close> and \<open>Not_op\<close> are \<^verbatim>\<open>ast.Pow\<close> and
  \<^verbatim>\<open>ast.Not\<close>. The keywords of a call are \<^verbatim>\<open>ast.keyword\<close> nodes.
\<close>

datatype binop =
  Add | Sub | Mult | Div | FloorDiv | Mod | Pow_op
  | MatMult | LShift | RShift | BitOr | BitXor | BitAnd

datatype unaryop = UAdd | USub | Not_op | Invert

datatype constvalue =
    CInt int
  | CBool bool
  | CFloat pyfloat
  | CComplex pyfloat
  | CStr string
  | CBytes string
  | CNone
  | CEllipsis

datatype node =
    Expression node
  | Constant constvalue
  | BinOp node binop node
  | UnaryOp unaryop node
  | Call node "node list" "node list"
  | Name string
  | Tuple "node list"
  | Attribute node string
  | Subscript node node
  | Keyword "string option" node
  | Other string "node list"

section \<open>The host\<close>

text \<open>
  What the source takes from the Python runtime and does not define: the parser
  \<^verbatim>\<open>ast.parse(expr, mode='eval')\<close>, the rounded arithmetic of floats and complex numbers,
  the true quotient of two ints, the built-in functions behind the whitelisted names,
  the largest C \<^verbatim>\<open>long\<close> (the bound of \<^verbatim>\<open>math.factorial\<close>), the largest \<^verbatim>\<open>Py_ssize_t\<close>
  (the bound of a repetition count and of the length of a tuple) and \<^verbatim>\<open>ast.dump\<close>.
\<close>

datatype parsed = Tree node | SyntaxError string | ParseFailure error

record host =
  ast_parse :: "string \<Rightarrow> parsed"
  ast_dump :: "node \<Rightarrow> string"
  float_binop :: "binop \<Rightarrow> pyfloat \<Rightarrow> pyfloat \<Rightarrow> error + pyval"
  int_truediv :: "int \<Rightarrow> int \<Rightarrow> error + pyval"
  complex_binop :: "binop \<Rightarrow> pyval \<Rightarrow> pyval \<Rightarrow> error + pyval"
  call_builtin :: "string \<Rightarrow> pyval list \<Rightarrow> error + pyval"
  long_max :: int
  ssize_max :: int

subsection \<open>Conversions and tests of the host that are exact\<close>

text \<open>\<^verbatim>\<open>float(n)\<close> of an int: round to 53 significant bits, ties to even; too large raises.\<close>

definition round_half_even :: "int \<Rightarrow> nat \<Rightarrow> int" where
  "round_half_even m s =
     (let q = m div 2 ^ s; r = m mod 2 ^ s
      in if 2 * r > 2 ^ s \<or> (2 * r = 2 ^ s \<and> odd q) then q + 1 else q)"

definition int_to_double :: "int \<Rightarrow> error + pyfloat" where
  "int_to_double n =
     (let m = \<bar>n\<bar>; s = nat (bitlen m - 53); v = round_half_even m s * 2 ^ s
      in if v \<ge> 2 ^ 1024 then Inl OverflowError
         else Inr (Finite (of_int (if n < 0 then - v else v))))"

fun py_float :: "pyval \<Rightarrow> error + pyfloat" where
  "py_float (VInt n) = int_to_double n"
| "py_float (VBool b) = Inr (Finite (if b then 1 else 0))"
| "py_float (VFloat f) = Inr f"
| "py_float (VComplex re im) = Inl TypeError"
| "py_float (VFunc f) = Inl TypeError"
| "py_float (VTuple vs) = Inl TypeError"

fun is_integer :: "pyfloat \<Rightarrow> bool" where
  "is_integer (Finite r) = (of_int \<lfloor>r\<rfloor> = r)"
| "is_integer NegZero = True"
| "is_integer PosInf = False"
| "is_integer NegInf = False"
| "is_integer NaN = False"

fun float_lt_zero :: "pyfloat \<Rightarrow> bool" where
  "float_lt_zero (Finite r) = (r < 0)"
| "float_lt_zero NegZero = False"
| "float_lt_zero PosInf = False"
| "float_lt_zero NegInf = True"
| "float_lt_zero NaN = False"

text \<open>\<^verbatim>\<open>v < 0\<close>: defined on ints, bools and floats; a \<^verbatim>\<open>TypeError\<close> on anything else.\<close>

fun py_lt_zero :: "pyval \<Rightarrow> error + bool" where
  "py_lt_zero (VInt n) = Inr (n < 0)"
| "py_lt_zero (VBool b) = Inr False"
| "py_lt_zero (VFloat f) = Inr (float_lt_zero f)"
| "py_lt_zero (VComplex re im) = Inl TypeError"
| "py_lt_zero (VFunc f) = Inl TypeError"
| "py_lt_zero (VTuple vs) = Inl TypeError"

text \<open>\<^verbatim>\<open>int(v)\<close>: truncation toward zero on a float.\<close>

definition trunc :: "rat \<Rightarrow> int" where
  "trunc r = (if r < 0 then \<lceil>r\<rceil> else \<lfloor>r\<rfloor>)"

fun py_int :: "pyval \<Rightarrow> error + int" where
  "py_int (VInt n) = Inr n"
| "py_int (VBool b) = Inr (if b then 1 else 0)"
| "py_int (VFloat (Finite r)) = Inr (trunc r)"
| "py_int (VFloat NegZero) = Inr 0"
| "py_int (VFloat PosInf) = Inl OverflowError"
| "py_int (VFloat NegInf) = Inl OverflowError"
| "py_int (VFloat NaN) = Inl (ValueError ''cannot convert float NaN to integer'')"
| "py_int (VComplex re im) = Inl TypeError"
| "py_int (VFunc f) = Inl TypeError"
| "py_int (VTuple vs) = Inl TypeError"

text \<open>
  \<^verbatim>\<open>math.factorial(n)\<close> on an int: an argument above the largest C \<^verbatim>\<open>long\<close> overflows,
  a negative one is refused.
\<close>

definition math_factorial :: "host \<Rightarrow> int \<Rightarrow> error + pyval" where
  "math_factorial h n =
     (if n > long_max h then Inl OverflowError
      else if n < 0 then Inl (ValueError ''factorial() not defined for negative values'')
      else Inr (VInt (fact (nat n))))"

subsection \<open>The arithmetic operators of the \<^verbatim>\<open>operator\<close> module\<close>

fun as_int :: "pyval \<Rightarrow> int option" where
  "as_int (VInt n) = Some n"
| "as_int (VBool b) = Some (if b then 1 else 0)"
| "as_int (VFloat f) = None"
| "as_int (VComplex re im) = None"
| "as_int (VFunc f) = None"
| "as_int (VTuple vs) = None"

fun is_real_number :: "pyval \<Rightarrow> bool" where
  "is_real_number (VInt n) = True"
| "is_real_number (VBool b) = True"
| "is_real_number (VFloat f) = True"
| "is_real_number (VComplex re im) = False"
| "is_real_number (VFunc f) = False"
| "is_real_number (VTuple vs) = False"

fun is_number :: "pyval \<Rightarrow> bool" where
  "is_number (VComplex re im) = True"
| "is_number v = is_real_number v"

fun is_zero_float :: "pyfloat \<Rightarrow> bool" where
  "is_zero_float (Finite r) = (r = 0)"
| "is_zero_float NegZero = True"
| "is_zero_float PosInf = False"
| "is_zero_float NegInf = False"
| "is_zero_float NaN = False"

text \<open>
  A float operation converts both operands to floats, left first (a huge int raises
  \<^verbatim>\<open>OverflowError\<close> there), then refuses a zero divisor, then rounds.
\<close>

definition float_arith :: "host \<Rightarrow> binop \<Rightarrow> pyval \<Rightarrow> pyval \<Rightarrow> error + pyval" where
  "float_arith h op a b =
     (case py_float a of
        Inl e \<Rightarrow> Inl e
      | Inr x \<Rightarrow>
          (case py_float b of
             Inl e \<Rightarrow> Inl e
           | Inr y \<Rightarrow>
               if (op = Div \<or> op = FloorDiv \<or> op = Mod) \<and> is_zero_float y
               then Inl ZeroDivisionError
               else float_binop h op x y))"

text \<open>
  The numeric tower: two ints (a bool counts as one) stay exact, a float with a real
  number goes to the float operation, a complex operand to the host's complex
  arithmetic, anything else is a \<^verbatim>\<open>TypeError\<close>.
\<close>

definition number_binop ::
  "host \<Rightarrow> binop \<Rightarrow> (int \<Rightarrow> int \<Rightarrow> error + pyval) \<Rightarrow> pyval \<Rightarrow> pyval \<Rightarrow> error + pyval" where
  "number_binop h op int_case a b =
     (case (as_int a, as_int b) of
        (Some x, Some y) \<Rightarrow> int_case x y
      | _ \<Rightarrow>
          if is_real_number a \<and> is_real_number b then float_arith h op a b
          else if is_number a \<and> is_number b then complex_binop h op a b
          else Inl TypeError)"

definition operator_add :: "host \<Rightarrow> pyval \<Rightarrow> pyval \<Rightarrow> error + pyval" where
  "operator_add h a b =
     (case (a, b) of
        (VTuple xs, VTuple ys) \<Rightarrow> Inr (VTuple (xs @ ys))
      | _ \<Rightarrow> number_binop h Add (\<lambda>x y. Inr (VInt (x + y))) a b)"

definition operator_sub :: "host \<Rightarrow> pyval \<Rightarrow> pyval \<Rightarrow> error + pyval" where
  "operator_sub h a b = number_binop h Sub (\<lambda>x y. Inr (VInt (x - y))) a b"

text \<open>
  A tuple times an int: the count must fit a \<^verbatim>\<open>Py_ssize_t\<close> (\<^verbatim>\<open>OverflowError\<close> otherwise);
  an empty tuple or a count below one gives the empty tuple; a result longer than the
  largest \<^verbatim>\<open>Py_ssize_t\<close> is a \<^verbatim>\<open>MemoryError\<close>. An allocation that fails below that bound is
  not modelled.
\<close>

definition tuple_repeat :: "host \<Rightarrow> pyval list \<Rightarrow> int \<Rightarrow> error + pyval" where
  "tuple_repeat h xs k =
     (if k < - ssize_max h - 1 \<or> ssize_max h < k then Inl OverflowError
      else if xs = [] \<or> k \<le> 0 then Inr (VTuple [])
      else if ssize_max h div int (length xs) < k then Inl MemoryError
      else Inr (VTuple (concat (replicate (nat k) xs))))"

definition operator_mul :: "host \<Rightarrow> pyval \<Rightarrow> pyval \<Rightarrow> error + pyval" where
  "operator_mul h a b =
     (case (a, as_int b) of
        (VTuple xs, Some k) \<Rightarrow> tuple_repeat h xs k
      | _ \<Rightarrow>
          (case (as_int a, b) of
             (Some k, VTuple ys) \<Rightarrow> tuple_repeat h ys k
           | _ \<Rightarrow> number_binop h Mult (\<lambda>x y. Inr (VInt (x * y))) a b))"

definition operator_truediv :: "host \<Rightarrow> pyval \<Rightarrow> pyval \<Rightarrow> error + pyval" where
  "operator_truediv h a b =
     number_binop h Div
       (\<lambda>x y. if y = 0 then Inl ZeroDivisionError else int_truediv h x y) a b"

definition operator_floordiv :: "host \<Rightarrow> pyval \<Rightarrow> pyval \<Rightarrow> error + pyval" where
  "operator_floordiv h a b =
     number_binop h FloorDiv
       (\<lambda>x y. if y = 0 then Inl ZeroDivisionError else Inr (VInt (x div y))) a b"

definition operator_mod :: "host \<Rightarrow> pyval \<Rightarrow> pyval \<Rightarrow> error + pyval" where
  "operator_mod h a b =
     number_binop h Mod
       (\<lambda>x y. if y = 0 then Inl ZeroDivisionError else Inr (VInt (x mod y))) a b"

text \<open>An int to a negative int power is computed as a float power.\<close>

definition operator_pow :: "host \<Rightarrow> pyval \<Rightarrow> pyval \<Rightarrow> error + pyval" where
  "operator_pow h a b =
     number_binop h Pow_op
       (\<lambda>x y. if y < 0 then float_arith h Pow_op (VInt x) (VInt y)
              else Inr (VInt (x ^ nat y))) a b"

fun float_neg :: "pyfloat \<Rightarrow> pyfloat" where
  "float_neg (Finite r) = (if r = 0 then NegZero else Finite (- r))"
| "float_neg NegZero = Finite 0"
| "float_neg PosInf = NegInf"
| "float_neg NegInf = PosInf"
| "float_neg NaN = NaN"

fun operator_pos :: "pyval \<Rightarrow> error + pyval" where
  "operator_pos (VInt n) = Inr (VInt n)"
| "operator_pos (VBool b) = Inr (VInt (if b then 1 else 0))"
| "operator_pos (VFloat f) = Inr (VFloat f)"
| "operator_pos (VComplex re im) = Inr (VComplex re im)"
| "operator_pos (VFunc f) = Inl TypeError"
| "operator_pos (VTuple vs) = Inl TypeError"

fun operator_neg :: "pyval \<Rightarrow> error + pyval" where
  "operator_neg (VInt n) = Inr (VInt (- n))"
| "operator_neg (VBool b) = Inr (VInt (if b then - 1 else 0))"
| "operator_neg (VFloat f) = Inr (VFloat (float_neg f))"
| "operator_neg (VComplex re im) = Inr (VComplex (float_neg re) (float_neg im))"
| "operator_neg (VFunc f) = Inl TypeError"
| "operator_neg (VTuple vs) = Inl TypeError"

section \<open>The whitelist tables\<close>

definition ALLOWED_BINOPS ::
  "binop \<rightharpoonup> (host \<Rightarrow> pyval \<Rightarrow> pyval \<Rightarrow> error + pyval)" where
  "ALLOWED_BINOPS = map_of
     [(Add, operator_add),
      (Sub, operator_sub),
      (Mult, operator_mul),
      (Div, operator_truediv),
      (FloorDiv, operator_floordiv),
      (Mod, operator_mod),
      (Pow_op, operator_pow)]"

definition ALLOWED_UNARYOPS :: "unaryop \<rightharpoonup> (pyval \<Rightarrow> error + pyval)" where
  "ALLOWED_UNARYOPS = map_of [(UAdd, operator_pos), (USub, operator_neg)]"

text \<open>
  \<^verbatim>\<open>getattr(math, k)\<close> for the listed names: the five constants are floats (\<^verbatim>\<open>pi\<close>, \<^verbatim>\<open>e\<close>
  and \<^verbatim>\<open>tau\<close> by the exact value of their binary64), every other name is a built-in
  function, kept by its name.
\<close>

definition math_getattr :: "string \<Rightarrow> pyval" where
  "math_getattr k =
     (if k = ''pi'' then VFloat (Finite (884279719003555 / 281474976710656))
      else if k = ''e'' then VFloat (Finite (6121026514868073 / 2251799813685248))
      else if k = ''tau'' then VFloat (Finite (884279719003555 / 140737488355328))
      else if k = ''inf'' then VFloat PosInf
      else if k = ''nan'' then VFloat NaN
      else VFunc k)"

definition ALLOWED_NAMES :: "string \<rightharpoonup> pyval" where
  "ALLOWED_NAMES =
     map_of (map (\<lambda>k. (k, math_getattr k))
       [''sin'', ''cos'', ''tan'', ''asin'', ''acos'', ''atan'', ''atan2'',
        ''sinh'', ''cosh'', ''tanh'',
        ''degrees'', ''radians'',
        ''sqrt'', ''log'', ''log10'', ''exp'', ''pow'', ''hypot'',
        ''pi'', ''e'', ''tau'', ''inf'', ''nan'',
        ''factorial''])
     ++ map_of [(''abs'', VFunc ''abs''), (''round'', VFunc ''round'')]"

fun callable :: "pyval \<Rightarrow> bool" where
  "callable (VFunc f) = True"
| "callable v = False"

section \<open>The evaluator\<close>

text \<open>
  A result is the value returned or the exception raised, together with the calls made
  to whitelisted functions on the way, in order: the name of the function and its
  arguments.
\<close>

type_synonym trace = "(string \<times> pyval list) list"

type_synonym outcome = "(error + pyval) \<times> trace"

text \<open>The class names that the messages of the source print.\<close>

fun binop_name :: "binop \<Rightarrow> string" where
  "binop_name Add = ''Add''"
| "binop_name Sub = ''Sub''"
| "binop_name Mult = ''Mult''"
| "binop_name Div = ''Div''"
| "binop_name FloorDiv = ''FloorDiv''"
| "binop_name Mod = ''Mod''"
| "binop_name Pow_op = ''Pow''"
| "binop_name MatMult = ''MatMult''"
| "binop_name LShift = ''LShift''"
| "binop_name RShift = ''RShift''"
| "binop_name BitOr = ''BitOr''"
| "binop_name BitXor = ''BitXor''"
| "binop_name BitAnd = ''BitAnd''"

fun unaryop_name :: "unaryop \<Rightarrow> string" where
  "unaryop_name UAdd = ''UAdd''"
| "unaryop_name USub = ''USub''"
| "unaryop_name Not_op = ''Not''"
| "unaryop_name Invert = ''Invert''"

fun type_repr :: "constvalue \<Rightarrow> string" where
  "type_repr (CInt n) = ''<class 'int'>''"
| "type_repr (CBool b) = ''<class 'bool'>''"
| "type_repr (CFloat f) = ''<class 'float'>''"
| "type_repr (CComplex im) = ''<class 'complex'>''"
| "type_repr (CStr s) = ''<class 'str'>''"
| "type_repr (CBytes s) = ''<class 'bytes'>''"
| "type_repr CNone = ''<class 'NoneType'>''"
| "type_repr CEllipsis = ''<class 'ellipsis'>''"

text \<open>
  Lines 71 to 74: a constant is returned when \<^verbatim>\<open>isinstance(node.value, (int, float))\<close>,
  which a bool passes. The test for \<^verbatim>\<open>ast.Num\<close> that follows in the source is never
  reached: every such node is an \<^verbatim>\<open>ast.Constant\<close>.
\<close>

fun eval_constant :: "constvalue \<Rightarrow> outcome" where
  "eval_constant (CInt n) = (Inr (VInt n), [])"
| "eval_constant (CBool b) = (Inr (VBool b), [])"
| "eval_constant (CFloat f) = (Inr (VFloat f), [])"
| "eval_constant c =
     (Inl (ValueError (''Constants of type '' @ type_repr c @ '' are not allowed'')), [])"

definition unsupported :: "host \<Rightarrow> node \<Rightarrow> outcome" where
  "unsupported h node = (Inl (ValueError (''Unsupported expression: '' @ ast_dump h node)), [])"

text \<open>
  Lines 109 to 112, the guard of \<^verbatim>\<open>factorial\<close>:
  \<^verbatim>\<open>len(args) != 1 or not float(args[0]).is_integer() or args[0] < 0\<close>, evaluated left to
  right; \<open>Inr True\<close> when the guard holds and the call is refused, \<open>Inl\<close> when a
  conversion raises.
\<close>

definition factorial_guard :: "pyval list \<Rightarrow> error + bool" where
  "factorial_guard args =
     (case args of
        [a] \<Rightarrow>
          (case py_float a of
             Inl e \<Rightarrow> Inl e
           | Inr f \<Rightarrow> if \<not> is_integer f then Inr True else py_lt_zero a)
      | _ \<Rightarrow> Inr True)"

definition call_factorial :: "host \<Rightarrow> pyval list \<Rightarrow> outcome" where
  "call_factorial h args =
     (case factorial_guard args of
        Inl e \<Rightarrow> (Inl e, [])
      | Inr True \<Rightarrow>
          (Inl (ValueError ''factorial() requires a single non-negative integer''), [])
      | Inr False \<Rightarrow>
          (case py_int (hd args) of
             Inl e \<Rightarrow> (Inl e, [])
           | Inr n \<Rightarrow> (math_factorial h n, [(''factorial'', [VInt n])])))"

text \<open>\<^verbatim>\<open>func(*args)\<close>: the call of the object found in the table.\<close>

fun call_func :: "host \<Rightarrow> pyval \<Rightarrow> pyval list \<Rightarrow> outcome" where
  "call_func h (VFunc f) args = (call_builtin h f args, [(f, args)])"
| "call_func h v args = (Inl TypeError, [])"

text \<open>Sequencing: the trace of what ran before is kept in front.\<close>

fun after :: "trace \<Rightarrow> ('a \<times> trace) \<Rightarrow> ('a \<times> trace)" where
  "after t (r, t') = (r, t @ t')"

fun safe_eval :: "host \<Rightarrow> node \<Rightarrow> outcome"
  and eval_each :: "host \<Rightarrow> node list \<Rightarrow> (error + pyval list) \<times> trace" where
  "safe_eval h (Expression body) = safe_eval h body"
| "safe_eval h (Constant c) = eval_constant c"
| "safe_eval h (BinOp left op right) =
     (case ALLOWED_BINOPS op of
        None \<Rightarrow>
          (Inl (ValueError (''Binary operator '' @ binop_name op @ '' is not allowed'')), [])
      | Some func \<Rightarrow>
          (case safe_eval h left of
             (Inl e, t1) \<Rightarrow> (Inl e, t1)
           | (Inr l, t1) \<Rightarrow>
               (case safe_eval h right of
                  (Inl e, t2) \<Rightarrow> (Inl e, t1 @ t2)
                | (Inr r, t2) \<Rightarrow> (func h l r, t1 @ t2))))"
| "safe_eval h (UnaryOp op operand) =
     (case ALLOWED_UNARYOPS op of
        None \<Rightarrow>
          (Inl (ValueError (''Unary operator '' @ unaryop_name op @ '' is not allowed'')), [])
      | Some func \<Rightarrow>
          (case safe_eval h operand of
             (Inl e, t) \<Rightarrow> (Inl e, t)
           | (Inr v, t) \<Rightarrow> (func v, t)))"
| "safe_eval h (Call func args keywords) =
     (case func of
        Name func_name \<Rightarrow>
          (case ALLOWED_NAMES func_name of
             None \<Rightarrow>
               (Inl (ValueError (''Function '' @ [CHR 0x27] @ func_name @ [CHR 0x27] @ '' is not allowed'')), [])
           | Some f \<Rightarrow>
               if \<not> callable f
               then (Inl (ValueError (''Function '' @ [CHR 0x27] @ func_name @ [CHR 0x27] @ '' is not allowed'')), [])
               else
                 (case eval_each h args of
                    (Inl e, t) \<Rightarrow> (Inl e, t)
                  | (Inr vs, t) \<Rightarrow>
                      if keywords \<noteq> []
                      then (Inl (ValueError ''Keyword arguments are not supported''), t)
                      else if func_name = ''factorial''
                      then after t (call_factorial h vs)
                      else after t (call_func h f vs)))
      | _ \<Rightarrow> (Inl (ValueError ''Only direct function calls are allowed''), []))"
| "safe_eval h (Name ident) =
     (case ALLOWED_NAMES ident of
        None \<Rightarrow> (Inl (ValueError (''Name '' @ [CHR 0x27] @ ident @ [CHR 0x27] @ '' is not allowed'')), [])
      | Some val \<Rightarrow> (Inr val, []))"
| "safe_eval h (Tuple elts) =
     (case eval_each h elts of
        (Inl e, t) \<Rightarrow> (Inl e, t)
      | (Inr vs, t) \<Rightarrow> (Inr (VTuple vs), t))"
| "safe_eval h (Attribute v a) = unsupported h (Attribute v a)"
| "safe_eval h (Subscript v s) = unsupported h (Subscript v s)"
| "safe_eval h (Keyword k v) = unsupported h (Keyword k v)"
| "safe_eval h (Other c ns) = unsupported h (Other c ns)"
| "eval_each h [] = (Inr [], [])"
| "eval_each h (n # ns) =
     (case safe_eval h n of
        (Inl e, t1) \<Rightarrow> (Inl e, t1)
      | (Inr v, t1) \<Rightarrow>
          (case eval_each h ns of
             (Inl e, t2) \<Rightarrow> (Inl e, t1 @ t2)
           | (Inr vs, t2) \<Rightarrow> (Inr (v # vs), t1 @ t2)))"

section \<open>The walk of \<^verbatim>\<open>evaluate\<close>\<close>

text \<open>
  \<^verbatim>\<open>ast.iter_child_nodes\<close>: the child nodes in field order. The operator and context
  nodes (\<^verbatim>\<open>Add()\<close>, \<^verbatim>\<open>Load()\<close>), which the host also yields, are left out: they are
  leaves and none of the classes the walk looks for.
\<close>

fun iter_child_nodes :: "node \<Rightarrow> node list" where
  "iter_child_nodes (Expression body) = [body]"
| "iter_child_nodes (Constant c) = []"
| "iter_child_nodes (BinOp left op right) = [left, right]"
| "iter_child_nodes (UnaryOp op operand) = [operand]"
| "iter_child_nodes (Call func args keywords) = func # args @ keywords"
| "iter_child_nodes (Name ident) = []"
| "iter_child_nodes (Tuple elts) = elts"
| "iter_child_nodes (Attribute v a) = [v]"
| "iter_child_nodes (Subscript v s) = [v, s]"
| "iter_child_nodes (Keyword k v) = [v]"
| "iter_child_nodes (Other c ns) = ns"

lemma sum_list_weight_le:
  "sum_list (map (\<lambda>c. 2 * size c + 1) xs) \<le> 2 * size_list size xs" for xs :: "node list"
  by (induction xs) auto

lemma weight_iter_child_nodes:
  "sum_list (map (\<lambda>c. 2 * size c + 1) (iter_child_nodes n)) < 2 * size n + 1"
proof (cases n)
  case (Call f args kws)
  show ?thesis
    using sum_list_weight_le [of args] sum_list_weight_le [of kws] Call by simp
next
  case (Tuple elts)
  show ?thesis using sum_list_weight_le [of elts] Tuple by simp
next
  case (Other c ns)
  show ?thesis using sum_list_weight_le [of ns] Other by simp
qed auto

text \<open>\<^verbatim>\<open>ast.walk\<close>: breadth first, from a queue that starts with the tree.\<close>

function walk_queue :: "node list \<Rightarrow> node list" where
  "walk_queue [] = []"
| "walk_queue (n # todo) = n # walk_queue (todo @ iter_child_nodes n)"
  by pat_completeness auto
termination
proof (relation "measure (\<lambda>todo. sum_list (map (\<lambda>c. 2 * size c + 1) todo))")
  show "wf (measure (\<lambda>todo. sum_list (map (\<lambda>c. 2 * size c + 1) todo)))" by simp
next
  fix n :: node and todo :: "node list"
  show "(todo @ iter_child_nodes n, n # todo)
      \<in> measure (\<lambda>todo. sum_list (map (\<lambda>c. 2 * size c + 1) todo))"
    using weight_iter_child_nodes [of n] by simp
qed

definition walk :: "node \<Rightarrow> node list" where
  "walk tree = walk_queue [tree]"

text \<open>Lines 137 to 143: the loop raises at the first node of one of the three classes.\<close>

fun forbidden :: "node \<Rightarrow> error option" where
  "forbidden (Attribute v a) = Some (ValueError ''Attribute access is not allowed'')"
| "forbidden (Subscript v s) = Some (ValueError ''Subscription is not allowed'')"
| "forbidden (Constant (CStr s)) = Some (ValueError ''String literals are not allowed'')"
| "forbidden n = None"

fun check_nodes :: "node list \<Rightarrow> error option" where
  "check_nodes [] = None"
| "check_nodes (n # ns) = (case forbidden n of Some e \<Rightarrow> Some e | None \<Rightarrow> check_nodes ns)"

definition evaluate :: "host \<Rightarrow> string \<Rightarrow> outcome" where
  "evaluate h expr =
     (case ast_parse h expr of
        SyntaxError e \<Rightarrow> (Inl (ValueError (''Syntax error: '' @ e)), [])
      | ParseFailure e \<Rightarrow> (Inl e, [])
      | Tree tree \<Rightarrow>
          (case check_nodes (walk tree) of
             Some e \<Rightarrow> (Inl e, [])
           | None \<Rightarrow> safe_eval h tree))"

section \<open>Notions of the specification\<close>

text \<open>A node and everything below it: what ``anywhere in the text'' ranges over.\<close>

fun subnodes :: "node \<Rightarrow> node list" where
  "subnodes (Expression body) = Expression body # subnodes body"
| "subnodes (Constant c) = [Constant c]"
| "subnodes (BinOp left op right) = BinOp left op right # subnodes left @ subnodes right"
| "subnodes (UnaryOp op operand) = UnaryOp op operand # subnodes operand"
| "subnodes (Call func args kws) =
     Call func args kws # subnodes func @ concat (map subnodes args)
       @ concat (map subnodes kws)"
| "subnodes (Name ident) = [Name ident]"
| "subnodes (Tuple elts) = Tuple elts # concat (map subnodes elts)"
| "subnodes (Attribute v a) = Attribute v a # subnodes v"
| "subnodes (Subscript v s) = Subscript v s # subnodes v @ subnodes s"
| "subnodes (Keyword k v) = Keyword k v # subnodes v"
| "subnodes (Other c ns) = Other c ns # concat (map subnodes ns)"

text \<open>
  An operator outside the allowed set: a binary or unary operator missing from the
  tables, or a comparison or boolean operation (which the host parses to nodes of the
  classes \<^verbatim>\<open>Compare\<close> and \<^verbatim>\<open>BoolOp\<close>).
\<close>

fun excluded_operator :: "node \<Rightarrow> bool" where
  "excluded_operator (BinOp left op right) =
     (op \<in> set [MatMult, LShift, RShift, BitOr, BitXor, BitAnd])"
| "excluded_operator (UnaryOp op operand) = (op \<in> set [Not_op, Invert])"
| "excluded_operator (Other c ns) = (c \<in> set [''Compare'', ''BoolOp''])"
| "excluded_operator n = False"

text \<open>The nodes that the evaluator can pass without raising at the node itself.\<close>

fun supported :: "node \<Rightarrow> bool" where
  "supported (Expression body) = True"
| "supported (Constant (CInt n)) = True"
| "supported (Constant (CBool b)) = True"
| "supported (Constant (CFloat f)) = True"
| "supported (Constant c) = False"
| "supported (BinOp left op right) = (ALLOWED_BINOPS op \<noteq> None)"
| "supported (UnaryOp op operand) = (ALLOWED_UNARYOPS op \<noteq> None)"
| "supported (Call (Name f) args kws) = (kws = [])"
| "supported (Call func args kws) = False"
| "supported (Name ident) = True"
| "supported (Tuple elts) = True"
| "supported (Attribute v a) = False"
| "supported (Subscript v s) = False"
| "supported (Keyword k v) = False"
| "supported (Other c ns) = False"

text \<open>A number that is zero: the int 0, \<^verbatim>\<open>False\<close>, or a float zero of either sign.\<close>

fun is_zero_number :: "pyval \<Rightarrow> bool" where
  "is_zero_number (VInt n) = (n = 0)"
| "is_zero_number (VBool b) = (\<not> b)"
| "is_zero_number (VFloat f) = is_zero_float f"
| "is_zero_number (VComplex re im) = False"
| "is_zero_number (VFunc f) = False"
| "is_zero_number (VTuple vs) = False"

text \<open>
  The non-negative integer that a value is, if it is one: an int or bool that is not
  negative, or a float that is not negative and has no fractional part.
\<close>

fun nonneg_integer :: "pyval \<Rightarrow> int option" where
  "nonneg_integer (VInt n) = (if 0 \<le> n then Some n else None)"
| "nonneg_integer (VBool b) = Some (if b then 1 else 0)"
| "nonneg_integer (VFloat (Finite r)) =
     (if 0 \<le> r \<and> of_int \<lfloor>r\<rfloor> = r then Some \<lfloor>r\<rfloor> else None)"
| "nonneg_integer (VFloat NegZero) = Some 0"
| "nonneg_integer v = None"

section \<open>The grammar of the specification\<close>

text \<open>
  Modelled from the spec: the parser. The source has no parser of its own: line 132
  hands the text to the host's \<^verbatim>\<open>ast.parse\<close>. Section 4.1 of the specification gives
  the grammar that the parser follows, and this section writes it out for the fragment
  of decimal integers, names, calls with positional arguments, parentheses and the
  operators \<^verbatim>\<open>+ - * / // % **\<close>:
  \<^item> additive operators bind loosest, then multiplicative ones, both to the left;
  \<^item> a unary \<^verbatim>\<open>+\<close> or \<^verbatim>\<open>-\<close> is a prefix of a factor;
  \<^item> power binds tighter than a unary operator on its left (the operand of the prefix is
    the whole power), its left operand is a primary, and it is right-associative: its
    right operand is again a factor, which may carry its own prefix and its own power;
  \<^item> a primary is a number, a name, a call \<^verbatim>\<open>name '(' [expr (',' expr)*] ')'\<close> or a
    parenthesized expression.
  Anything else (a float literal, which needs the host's rounding, and every construct
  the specification forbids) is outside the fragment, and the result is \<open>None\<close>.
\<close>

datatype token =
    NUMBER int
  | NAME string
  | PLUS
  | MINUS
  | STAR
  | SLASH
  | DOUBLESLASH
  | PERCENT
  | DOUBLESTAR
  | LPAR
  | RPAR
  | COMMA

definition digit_value :: "char \<Rightarrow> int option" where
  "digit_value c = map_of (zip ''0123456789'' [0, 1, 2, 3, 4, 5, 6, 7, 8, 9]) c"

definition is_name_start :: "char \<Rightarrow> bool" where
  "is_name_start c \<longleftrightarrow> c \<in> set ''abcdefghijklmnopqrstuvwxyzABCDEFGHIJKLMNOPQRSTUVWXYZ_''"

text \<open>The token being read: nothing, the digits of a number, or the characters of a name.\<close>

datatype pending = Nothing | Digits int | Letters string

fun flush :: "pending \<Rightarrow> token list" where
  "flush Nothing = []"
| "flush (Digits n) = [NUMBER n]"
| "flush (Letters s) = [NAME s]"

definition single_token :: "char \<Rightarrow> token option" where
  "single_token c =
     map_of [(CHR ''+'', PLUS), (CHR ''-'', MINUS), (CHR ''*'', STAR), (CHR ''/'', SLASH),
             (CHR ''%'', PERCENT), (CHR ''('', LPAR), (CHR '')'', RPAR), (CHR '','', COMMA)] c"

fun emit :: "pending \<Rightarrow> token list \<Rightarrow> token list option \<Rightarrow> token list option" where
  "emit p ts None = None"
| "emit p ts (Some rest) = Some (flush p @ ts @ rest)"

fun scan :: "pending \<Rightarrow> string \<Rightarrow> token list option" where
  "scan p [] = Some (flush p)"
| "scan p (c # cs) =
     (case digit_value c of
        Some d \<Rightarrow>
          (case p of
             Nothing \<Rightarrow> scan (Digits d) cs
           | Digits n \<Rightarrow> scan (Digits (10 * n + d)) cs
           | Letters s \<Rightarrow> scan (Letters (s @ [c])) cs)
      | None \<Rightarrow>
          if is_name_start c then
            (case p of
               Nothing \<Rightarrow> scan (Letters [c]) cs
             | Digits n \<Rightarrow> None
             | Letters s \<Rightarrow> scan (Letters (s @ [c])) cs)
          else if c = CHR '' '' then emit p [] (scan Nothing cs)
          else
            (case cs of
               [] \<Rightarrow>
                 (case single_token c of
                    None \<Rightarrow> None
                  | Some t \<Rightarrow> emit p [t] (Some []))
             | c' # cs' \<Rightarrow>
                 if c = CHR ''*'' \<and> c' = CHR ''*'' then emit p [DOUBLESTAR] (scan Nothing cs')
                 else if c = CHR ''/'' \<and> c' = CHR ''/'' then emit p [DOUBLESLASH] (scan Nothing cs')
                 else
                   (case single_token c of
                      None \<Rightarrow> None
                    | Some t \<Rightarrow> emit p [t] (scan Nothing (c' # cs')))))"

text \<open>
  The descent, one function for each level of the grammar. The first argument bounds the
  depth of the descent and decreases at every call; \<open>parse_tokens\<close> gives it six levels
  for each token.
\<close>

function parse_sum :: "nat \<Rightarrow> token list \<Rightarrow> (node \<times> token list) option"
  and parse_sum_rest :: "nat \<Rightarrow> node \<Rightarrow> token list \<Rightarrow> (node \<times> token list) option"
  and parse_product :: "nat \<Rightarrow> token list \<Rightarrow> (node \<times> token list) option"
  and parse_product_rest :: "nat \<Rightarrow> node \<Rightarrow> token list \<Rightarrow> (node \<times> token list) option"
  and parse_factor :: "nat \<Rightarrow> token list \<Rightarrow> (node \<times> token list) option"
  and parse_power :: "nat \<Rightarrow> token list \<Rightarrow> (node \<times> token list) option"
  and parse_primary :: "nat \<Rightarrow> token list \<Rightarrow> (node \<times> token list) option"
  and parse_args :: "nat \<Rightarrow> token list \<Rightarrow> (node list \<times> token list) option" where
  "parse_sum 0 ts = None"
| "parse_sum (Suc k) ts =
     (case parse_product k ts of
        None \<Rightarrow> None
      | Some (left, rest) \<Rightarrow> parse_sum_rest k left rest)"
| "parse_sum_rest 0 left ts = None"
| "parse_sum_rest (Suc k) left ts =
     (case ts of
        PLUS # ts' \<Rightarrow>
          (case parse_product k ts' of
             None \<Rightarrow> None
           | Some (right, rest) \<Rightarrow> parse_sum_rest k (BinOp left Add right) rest)
      | MINUS # ts' \<Rightarrow>
          (case parse_product k ts' of
             None \<Rightarrow> None
           | Some (right, rest) \<Rightarrow> parse_sum_rest k (BinOp left Sub right) rest)
      | _ \<Rightarrow> Some (left, ts))"
| "parse_product 0 ts = None"
| "parse_product (Suc k) ts =
     (case parse_factor k ts of
        None \<Rightarrow> None
      | Some (left, rest) \<Rightarrow> parse_product_rest k left rest)"
| "parse_product_rest 0 left ts = None"
| "parse_product_rest (Suc k) left ts =
     (case ts of
        STAR # ts' \<Rightarrow>
          (case parse_factor k ts' of
             None \<Rightarrow> None
           | Some (right, rest) \<Rightarrow> parse_product_rest k (BinOp left Mult right) rest)
      | SLASH # ts' \<Rightarrow>
          (case parse_factor k ts' of
             None \<Rightarrow> None
           | Some (right, rest) \<Rightarrow> parse_product_rest k (BinOp left Div right) rest)
      | DOUBLESLASH # ts' \<Rightarrow>
          (case parse_factor k ts' of
             None \<Rightarrow> None
           | Some (right, rest) \<Rightarrow> parse_product_rest k (BinOp left FloorDiv right) rest)
      | PERCENT # ts' \<Rightarrow>
          (case parse_factor k ts' of
             None \<Rightarrow> None
           | Some (right, rest) \<Rightarrow> parse_product_rest k (BinOp left Mod right) rest)
      | _ \<Rightarrow> Some (left, ts))"
| "parse_factor 0 ts = None"
| "parse_factor (Suc k) ts =
     (case ts of
        PLUS # ts' \<Rightarrow>
          (case parse_factor k ts' of
             None \<Rightarrow> None
           | Some (operand, rest) \<Rightarrow> Some (UnaryOp UAdd operand, rest))
      | MINUS # ts' \<Rightarrow>
          (case parse_factor k ts' of
             None \<Rightarrow> None
           | Some (operand, rest) \<Rightarrow> Some (UnaryOp USub operand, rest))
      | _ \<Rightarrow> parse_power k ts)"
| "parse_power 0 ts = None"
| "parse_power (Suc k) ts =
     (case parse_primary k ts of
        None \<Rightarrow> None
      | Some (base, rest) \<Rightarrow>
          (case rest of
             DOUBLESTAR # rest' \<Rightarrow>
               (case parse_factor k rest' of
                  None \<Rightarrow> None
                | Some (exponent, rest'') \<Rightarrow> Some (BinOp base Pow_op exponent, rest''))
           | _ \<Rightarrow> Some (base, rest)))"
| "parse_primary 0 ts = None"
| "parse_primary (Suc k) ts =
     (case ts of
        NUMBER n # ts' \<Rightarrow> Some (Constant (CInt n), ts')
      | NAME x # ts' \<Rightarrow>
          (case ts' of
             LPAR # ts'' \<Rightarrow>
               (case ts'' of
                  RPAR # rest \<Rightarrow> Some (Call (Name x) [] [], rest)
                | _ \<Rightarrow>
                    (case parse_args k ts'' of
                       None \<Rightarrow> None
                     | Some (args, rest) \<Rightarrow>
                         (case rest of
                            RPAR # rest' \<Rightarrow> Some (Call (Name x) args [], rest')
                          | _ \<Rightarrow> None)))
           | _ \<Rightarrow> Some (Name x, ts'))
      | LPAR # ts' \<Rightarrow>
          (case parse_sum k ts' of
             None \<Rightarrow> None
           | Some (e, rest) \<Rightarrow>
               (case rest of
                  RPAR # rest' \<Rightarrow> Some (e, rest')
                | _ \<Rightarrow> None))
      | _ \<Rightarrow> None)"
| "parse_args 0 ts = None"
| "parse_args (Suc k) ts =
     (case parse_sum k ts of
        None \<Rightarrow> None
      | Some (e, rest) \<Rightarrow>
          (case rest of
             COMMA # rest' \<Rightarrow>
               (case parse_args k rest' of
                  None \<Rightarrow> None
                | Some (es, rest'') \<Rightarrow> Some (e # es, rest''))
           | _ \<Rightarrow> Some ([e], rest)))"
  by pat_completeness auto
termination
  by (relation "measure (case_sum (case_sum (case_sum fst fst) (case_sum fst fst))
        (case_sum (case_sum fst fst) (case_sum fst fst)))") auto

definition parse_tokens :: "token list \<Rightarrow> node option" where
  "parse_tokens ts =
     (case parse_sum (6 * length ts + 6) ts of
        Some (e, []) \<Rightarrow> Some e
      | _ \<Rightarrow> None)"

definition grammar_parse :: "string \<Rightarrow> node option" where
  "grammar_parse text =
     (case scan Nothing text of
        None \<Rightarrow> None
      | Some ts \<Rightarrow> parse_tokens ts)"

section \<open>A host for closed instances\<close>

text \<open>
  The theorems below hold for every host. Where one of them is applied to a concrete
  text, the host is this one: its parser knows the texts of the examples and answers
  with the tree that CPython's \<^verbatim>\<open>ast.parse\<close> builds for each; of the built-in functions
  it has \<^verbatim>\<open>abs\<close> on an int; its float and complex units are absent (a \<^verbatim>\<open>TypeError\<close>), and no
  instance below reaches them; \<^verbatim>\<open>long_max\<close> and \<^verbatim>\<open>ssize_max\<close> are those of a 64-bit
  platform. A text that is not in its table is a syntax error, with the message CPython
  gives for \<^verbatim>\<open>1/\<close>.
\<close>

text \<open>The text \<^verbatim>\<open>abs(1) + f'{1}'\<close>, with its two quote characters.\<close>

definition formatted_string_text :: string where
  "formatted_string_text = ''abs(1) + f'' @ [CHR 0x27] @ ''{1}'' @ [CHR 0x27]"

definition example_trees :: "(string \<times> node) list" where
  "example_trees =
     [(''2 + 3*4'',
         BinOp (Constant (CInt 2)) Add (BinOp (Constant (CInt 3)) Mult (Constant (CInt 4)))),
      (''1/0'', BinOp (Constant (CInt 1)) Div (Constant (CInt 0))),
      (''-2**2'', UnaryOp USub (BinOp (Constant (CInt 2)) Pow_op (Constant (CInt 2)))),
      (''2**3**2'',
         BinOp (Constant (CInt 2)) Pow_op (BinOp (Constant (CInt 3)) Pow_op (Constant (CInt 2)))),
      (''True'', Constant (CBool True)),
      (''True + True'', BinOp (Constant (CBool True)) Add (Constant (CBool True))),
      (''1, 2'', Tuple [Constant (CInt 1), Constant (CInt 2)]),
      (''sin'', Name ''sin''),
      (''factorial(5)'', Call (Name ''factorial'') [Constant (CInt 5)] []),
      (''factorial(-1)'', Call (Name ''factorial'') [UnaryOp USub (Constant (CInt 1))] []),
      (''factorial(2.5)'', Call (Name ''factorial'') [Constant (CFloat (Finite (5 / 2)))] []),
      (''factorial((1, 2))'',
         Call (Name ''factorial'') [Tuple [Constant (CInt 1), Constant (CInt 2)]] []),
      (''factorial(2**63)'',
         Call (Name ''factorial'') [BinOp (Constant (CInt 2)) Pow_op (Constant (CInt 63))] []),
      (''round(1.5, ndigits=0)'',
         Call (Name ''round'') [Constant (CFloat (Finite (3 / 2)))]
           [Keyword (Some ''ndigits'') (Constant (CInt 0))]),
      (''sin(a.b)'', Call (Name ''sin'') [Attribute (Name ''a'') ''b''] []),
      (''abs(1) + (1 & 2)'',
         BinOp (Call (Name ''abs'') [Constant (CInt 1)] []) Add
           (BinOp (Constant (CInt 1)) BitAnd (Constant (CInt 2)))),
      (formatted_string_text,
         BinOp (Call (Name ''abs'') [Constant (CInt 1)] []) Add
           (Other ''JoinedStr'' [Other ''FormattedValue'' [Constant (CInt 1)]]))]"

definition example_parse :: "string \<Rightarrow> parsed" where
  "example_parse s =
     (case map_of example_trees s of
        Some body \<Rightarrow> Tree (Expression body)
      | None \<Rightarrow> SyntaxError ''invalid syntax (<unknown>, line 1)'')"

fun example_builtin :: "string \<Rightarrow> pyval list \<Rightarrow> error + pyval" where
  "example_builtin f [VInt n] = (if f = ''abs'' then Inr (VInt \<bar>n\<bar>) else Inl TypeError)"
| "example_builtin f args = Inl TypeError"

definition example_host :: host where
  "example_host =
     \<lparr> ast_parse = example_parse,
       ast_dump = (\<lambda>n. ''<node>''),
       float_binop = (\<lambda>op x y. Inl TypeError),
       int_truediv = (\<lambda>x y. Inl TypeError),
       complex_binop = (\<lambda>op a b. Inl TypeError),
       call_builtin = example_builtin,
       long_max = 9223372036854775807,
       ssize_max = 9223372036854775807 \<rparr>"

text \<open>The example host with the grammar of the specification for its parser.\<close>

definition grammar_host :: host where
  "grammar_host =
     example_host
       \<lparr> ast_parse :=
           (\<lambda>s. case grammar_parse s of
                  Some e \<Rightarrow> Tree (Expression e)
                | None \<Rightarrow> SyntaxError ''invalid syntax (<unknown>, line 1)'') \<rparr>"

section \<open>The tables\<close>

lemma ALLOWED_BINOPS_simps:
  "ALLOWED_BINOPS Add = Some operator_add"
  "ALLOWED_BINOPS Sub = Some operator_sub"
  "ALLOWED_BINOPS Mult = Some operator_mul"
  "ALLOWED_BINOPS Div = Some operator_truediv"
  "ALLOWED_BINOPS FloorDiv = Some operator_floordiv"
  "ALLOWED_BINOPS Mod = Some operator_mod"
  "ALLOWED_BINOPS Pow_op = Some operator_pow"
  "ALLOWED_BINOPS MatMult = None"
  "ALLOWED_BINOPS LShift = None"
  "ALLOWED_BINOPS RShift = None"
  "ALLOWED_BINOPS BitOr = None"
  "ALLOWED_BINOPS BitXor = None"
  "ALLOWED_BINOPS BitAnd = None"
  by (simp_all add: ALLOWED_BINOPS_def)

lemma ALLOWED_UNARYOPS_simps:
  "ALLOWED_UNARYOPS UAdd = Some operator_pos"
  "ALLOWED_UNARYOPS USub = Some operator_neg"
  "ALLOWED_UNARYOPS Not_op = None"
  "ALLOWED_UNARYOPS Invert = None"
  by (simp_all add: ALLOWED_UNARYOPS_def)

lemma callable_name_is_function:
  assumes "ALLOWED_NAMES f = Some v" and "callable v"
  shows "v = VFunc f"
  using assms
  by (auto simp: ALLOWED_NAMES_def math_getattr_def map_add_def split: if_splits option.splits)

lemma ALLOWED_NAMES_examples:
  "ALLOWED_NAMES ''sin'' = Some (VFunc ''sin'')"
  "ALLOWED_NAMES ''abs'' = Some (VFunc ''abs'')"
  "ALLOWED_NAMES ''round'' = Some (VFunc ''round'')"
  "ALLOWED_NAMES ''factorial'' = Some (VFunc ''factorial'')"
  by (simp_all add: ALLOWED_NAMES_def math_getattr_def)

lemma example_parse_simps:
  "ast_parse example_host ''2 + 3*4'' =
     Tree (Expression (BinOp (Constant (CInt 2)) Add
       (BinOp (Constant (CInt 3)) Mult (Constant (CInt 4)))))"
  "ast_parse example_host ''1/0'' =
     Tree (Expression (BinOp (Constant (CInt 1)) Div (Constant (CInt 0))))"
  "ast_parse example_host ''-2**2'' =
     Tree (Expression (UnaryOp USub (BinOp (Constant (CInt 2)) Pow_op (Constant (CInt 2)))))"
  "ast_parse example_host ''2**3**2'' =
     Tree (Expression (BinOp (Constant (CInt 2)) Pow_op
       (BinOp (Constant (CInt 3)) Pow_op (Constant (CInt 2)))))"
  "ast_parse example_host ''True'' = Tree (Expression (Constant (CBool True)))"
  "ast_parse example_host ''True + True'' =
     Tree (Expression (BinOp (Constant (CBool True)) Add (Constant (CBool True))))"
  "ast_parse example_host ''1, 2'' =
     Tree (Expression (Tuple [Constant (CInt 1), Constant (CInt 2)]))"
  "ast_parse example_host ''sin'' = Tree (Expression (Name ''sin''))"
  "ast_parse example_host ''factorial(5)'' =
     Tree (Expression (Call (Name ''factorial'') [Constant (CInt 5)] []))"
  "ast_parse example_host ''factorial(-1)'' =
     Tree (Expression (Call (Name ''factorial'') [UnaryOp USub (Constant (CInt 1))] []))"
  "ast_parse example_host ''factorial(2.5)'' =
     Tree (Expression (Call (Name ''factorial'') [Constant (CFloat (Finite (5 / 2)))] []))"
  "ast_parse example_host ''factorial((1, 2))'' =
     Tree (Expression (Call (Name ''factorial'')
       [Tuple [Constant (CInt 1), Constant (CInt 2)]] []))"
  "ast_parse example_host ''factorial(2**63)'' =
     Tree (Expression (Call (Name ''factorial'')
       [BinOp (Constant (CInt 2)) Pow_op (Constant (CInt 63))] []))"
  "ast_parse example_host ''round(1.5, ndigits=0)'' =
     Tree (Expression (Call (Name ''round'') [Constant (CFloat (Finite (3 / 2)))]
       [Keyword (Some ''ndigits'') (Constant (CInt 0))]))"
  "ast_parse example_host ''sin(a.b)'' =
     Tree (Expression (Call (Name ''sin'') [Attribute (Name ''a'') ''b''] []))"
  "ast_parse example_host ''abs(1) + (1 & 2)'' =
     Tree (Expression (BinOp (Call (Name ''abs'') [Constant (CInt 1)] []) Add
       (BinOp (Constant (CInt 1)) BitAnd (Constant (CInt 2)))))"
  "ast_parse example_host formatted_string_text =
     Tree (Expression (BinOp (Call (Name ''abs'') [Constant (CInt 1)] []) Add
       (Other ''JoinedStr'' [Other ''FormattedValue'' [Constant (CInt 1)]])))"
  "ast_parse example_host ''1/'' = SyntaxError ''invalid syntax (<unknown>, line 1)''"
  by (simp_all add: example_host_def example_parse_def example_trees_def
      formatted_string_text_def)

lemma example_host_simps:
  "call_builtin example_host = example_builtin"
  "long_max example_host = 9223372036854775807"
  "ssize_max example_host = 9223372036854775807"
  "ast_dump example_host = (\<lambda>n. ''<node>'')"
  by (simp_all add: example_host_def)

section \<open>The walk reaches every node\<close>

lemma set_subnodes:
  "set (subnodes n) = insert n (\<Union>c\<in>set (iter_child_nodes n). set (subnodes c))"
  by (cases n) auto

lemma set_walk_queue: "set (walk_queue todo) = (\<Union>n\<in>set todo. set (subnodes n))"
proof (induction todo rule: walk_queue.induct)
  case 1
  show ?case by simp
next
  case (2 n todo)
  have "set (walk_queue (n # todo)) = insert n (set (walk_queue (todo @ iter_child_nodes n)))"
    by simp
  also have "\<dots> = insert n ((\<Union>m\<in>set todo. set (subnodes m))
      \<union> (\<Union>c\<in>set (iter_child_nodes n). set (subnodes c)))"
    using "2.IH" by simp
  also have "\<dots> = set (subnodes n) \<union> (\<Union>m\<in>set todo. set (subnodes m))"
    using set_subnodes [of n] by auto
  finally show ?case by simp
qed

lemma set_walk: "set (walk tree) = set (subnodes tree)"
  unfolding walk_def set_walk_queue by simp

lemma check_nodes_None: "check_nodes ns = None \<longleftrightarrow> (\<forall>n\<in>set ns. forbidden n = None)"
  by (induction ns) (auto split: option.splits)

lemma forbidden_messages:
  assumes "forbidden n = Some e"
  shows "e = ValueError ''Attribute access is not allowed''
       \<or> e = ValueError ''Subscription is not allowed''
       \<or> e = ValueError ''String literals are not allowed''"
  using assms by (cases n rule: forbidden.cases) auto

lemma check_nodes_messages:
  assumes "check_nodes ns = Some e"
  shows "e = ValueError ''Attribute access is not allowed''
       \<or> e = ValueError ''Subscription is not allowed''
       \<or> e = ValueError ''String literals are not allowed''"
  using assms
proof (induction ns)
  case Nil
  then show ?case by simp
next
  case (Cons n ns)
  show ?case
  proof (cases "forbidden n")
    case None
    then show ?thesis using Cons by simp
  next
    case (Some e')
    then have "e' = e" using Cons.prems by simp
    then show ?thesis using forbidden_messages Some by blast
  qed
qed

lemma forbidden_unsupported: "forbidden n \<noteq> None \<Longrightarrow> \<not> supported n"
  by (cases n rule: forbidden.cases) auto

lemma excluded_operator_unsupported: "excluded_operator n \<Longrightarrow> \<not> supported n"
  by (cases n rule: excluded_operator.cases) (auto simp: ALLOWED_BINOPS_simps ALLOWED_UNARYOPS_simps)

section \<open>A successful evaluation has passed every node\<close>

lemma eval_each_Inr_elems:
  assumes "eval_each h ns = (Inr vs, tr)" and "n \<in> set ns"
  shows "\<exists>v t. safe_eval h n = (Inr v, t)"
  using assms
proof (induction ns arbitrary: vs tr)
  case Nil
  then show ?case by simp
next
  case (Cons m ns)
  then show ?case
    by (auto split: prod.splits sum.splits)
qed

lemma safe_eval_ok_supported:
  assumes "safe_eval h tree = (Inr v, tr)" and "n \<in> set (subnodes tree)"
  shows "supported n"
  using assms
proof (induction tree arbitrary: v tr n)
  case (Expression body)
  then show ?case by auto
next
  case (Constant c)
  then show ?case by (cases c) auto
next
  case (BinOp left op right)
  then show ?case
    by (auto split: option.splits prod.splits sum.splits)
next
  case (UnaryOp op operand)
  then show ?case
    by (auto split: option.splits prod.splits sum.splits)
next
  case (Call func args kws)
  from Call.prems(1) obtain f where f: "func = Name f"
    by (cases func) auto
  from Call.prems(1) f obtain vs t where args: "eval_each h args = (Inr vs, t)" and kw: "kws = []"
    by (auto split: option.splits prod.splits sum.splits if_splits)
  show ?case
  proof (cases "n = Call func args kws")
    case True
    then show ?thesis using f kw by simp
  next
    case False
    then consider "n = Name f" | a where "a \<in> set args" "n \<in> set (subnodes a)"
      using Call.prems(2) f kw by auto
    then show ?thesis
    proof cases
      case 1
      then show ?thesis by simp
    next
      case 2
      then obtain v' t' where "safe_eval h a = (Inr v', t')"
        using eval_each_Inr_elems [OF args] by blast
      then show ?thesis using Call.IH(2) 2 by blast
    qed
  qed
next
  case (Name ident)
  then show ?case by auto
next
  case (Tuple elts)
  from Tuple.prems(1) obtain vs t where elts: "eval_each h elts = (Inr vs, t)"
    by (auto split: prod.splits sum.splits)
  show ?case
  proof (cases "n = Tuple elts")
    case True
    then show ?thesis by simp
  next
    case False
    then obtain a where a: "a \<in> set elts" "n \<in> set (subnodes a)"
      using Tuple.prems(2) by auto
    then obtain v' t' where "safe_eval h a = (Inr v', t')"
      using eval_each_Inr_elems [OF elts] by blast
    then show ?thesis using Tuple.IH a by blast
  qed
next
  case (Attribute v a)
  then show ?case by (simp add: unsupported_def)
next
  case (Subscript v s)
  then show ?case by (simp add: unsupported_def)
next
  case (Keyword k v)
  then show ?case by (simp add: unsupported_def)
next
  case (Other c ns)
  then show ?case by (simp add: unsupported_def)
qed

lemma unsupported_node_is_error:
  assumes "n \<in> set (subnodes tree)" and "\<not> supported n"
  shows "\<exists>e. fst (safe_eval h tree) = Inl e"
proof (cases "fst (safe_eval h tree)")
  case (Inl e)
  then show ?thesis by blast
next
  case (Inr v)
  then have "safe_eval h tree = (Inr v, snd (safe_eval h tree))"
    by (metis prod.collapse)
  then have "supported n" using assms(1) by (rule safe_eval_ok_supported)
  then show ?thesis using assms(2) by simp
qed

lemma safe_eval_ok_passes_walk:
  assumes "safe_eval h tree = (Inr v, tr)"
  shows "check_nodes (walk tree) = None"
proof -
  have "forbidden n = None" if "n \<in> set (subnodes tree)" for n
    using safe_eval_ok_supported [OF assms that] forbidden_unsupported by blast
  then show ?thesis by (simp add: check_nodes_None set_walk)
qed

lemma evaluate_passed_walk:
  assumes "ast_parse h s = Tree tree" and "check_nodes (walk tree) = None"
  shows "evaluate h s = safe_eval h tree"
  using assms by (simp add: evaluate_def)

lemma walk_of_operands:
  assumes "safe_eval h l = (Inr a, t1)" and "safe_eval h r = (Inr b, t2)"
  shows "check_nodes (walk (Expression (BinOp l op r))) = None"
proof -
  have "forbidden n = None" if mem: "n \<in> set (subnodes (Expression (BinOp l op r)))" for n
  proof -
    consider "n = Expression (BinOp l op r)" | "n = BinOp l op r"
      | "n \<in> set (subnodes l)" | "n \<in> set (subnodes r)"
      using mem by auto
    then show ?thesis
    proof cases
      case 3
      then show ?thesis
        using safe_eval_ok_supported [OF assms(1)] forbidden_unsupported by blast
    next
      case 4
      then show ?thesis
        using safe_eval_ok_supported [OF assms(2)] forbidden_unsupported by blast
    qed auto
  qed
  then show ?thesis by (simp add: check_nodes_None set_walk)
qed

lemma evaluate_binop:
  assumes "ast_parse h s = Tree (Expression (BinOp l op r))"
    and "safe_eval h l = (Inr a, t1)" and "safe_eval h r = (Inr b, t2)"
    and "ALLOWED_BINOPS op = Some func"
  shows "evaluate h s = (func h a b, t1 @ t2)"
  using evaluate_passed_walk [OF assms(1) walk_of_operands [OF assms(2,3)]] assms(2,3,4)
  by simp

section \<open>Bare names\<close>

text \<open>
  C5 (as the code has it): for every whitelisted name that is bound to a function,
  evaluating the bare identifier succeeds and returns the function object itself; no
  error is raised and nothing is called. The docstring of \<^verbatim>\<open>_safe_eval\<close> lists
  ``names for whitelisted constants/functions'' among what is supported.
\<close>

theorem C5_bare_function_name_returns_callable:
  assumes "ast_parse h s = Tree (Expression (Name f))"
    and "ALLOWED_NAMES f = Some v"
    and "callable v"
  shows "evaluate h s = (Inr (VFunc f), [])"
proof -
  have "v = VFunc f" using assms(2,3) by (rule callable_name_is_function)
  moreover have "check_nodes (walk (Expression (Name f))) = None"
    by (simp add: walk_def)
  ultimately show ?thesis using assms(1,2) by (simp add: evaluate_def)
qed

theorem C5_bare_function_name_witness:
  "evaluate example_host ''sin'' = (Inr (VFunc ''sin''), [])"
  using C5_bare_function_name_returns_callable
    [of example_host "''sin''" "''sin''" "VFunc ''sin''"]
  by (simp add: example_parse_simps ALLOWED_NAMES_examples)

text \<open>
  The claim as the spec words it (a bare function name is an error, never the callable)
  fails at the text \<^verbatim>\<open>sin\<close>.
\<close>

theorem C5_counterexample:
  "fst (evaluate example_host ''sin'') = Inr (VFunc ''sin'')"
  by (simp add: evaluate_def example_parse_simps walk_def ALLOWED_NAMES_examples)

section \<open>Boolean literals\<close>

text \<open>
  C9: the constant check admits a bool. The text \<^verbatim>\<open>True\<close> evaluates to \<^verbatim>\<open>True\<close>, whose
  value as an int is 1, and \<^verbatim>\<open>True + True\<close> evaluates to the int 2. The trees are the
  ones the host's parser builds for the two texts.
\<close>

theorem C9_bool_literals_are_numbers:
  assumes "ast_parse h ''True'' = Tree (Expression (Constant (CBool True)))"
    and "ast_parse h ''True + True'' =
           Tree (Expression (BinOp (Constant (CBool True)) Add (Constant (CBool True))))"
  shows "evaluate h ''True'' = (Inr (VBool True), [])
       \<and> as_int (VBool True) = Some 1
       \<and> evaluate h ''True + True'' = (Inr (VInt 2), [])"
  using assms
  by (simp add: evaluate_def walk_def ALLOWED_BINOPS_simps operator_add_def number_binop_def)

theorem C9_bool_literals_witness:
  "evaluate example_host ''True'' = (Inr (VBool True), [])
   \<and> evaluate example_host ''True + True'' = (Inr (VInt 2), [])"
  using C9_bool_literals_are_numbers [of example_host]
  by (simp add: example_parse_simps)

section \<open>Binary operators\<close>

text \<open>
  C3: for operands that evaluate to the values \<open>a\<close> and \<open>b\<close>, the value of a
  \<^verbatim>\<open>BinOp\<close> node under each of the seven whitelisted operators is what the host's own
  operator returns on \<open>a\<close> and \<open>b\<close> (the operands are evaluated left before right, and
  the calls they made are kept in that order); the text \<^verbatim>\<open>2 + 3*4\<close> evaluates to 14.
\<close>

theorem C3_binop_is_native_operator:
  assumes "ast_parse h s = Tree (Expression (BinOp l op r))"
    and "safe_eval h l = (Inr a, t1)"
    and "safe_eval h r = (Inr b, t2)"
    and "ast_parse h ''2 + 3*4'' =
      Tree (Expression (BinOp (Constant (CInt 2)) Add
        (BinOp (Constant (CInt 3)) Mult (Constant (CInt 4)))))"
  shows "(op = Add \<longrightarrow> evaluate h s = (operator_add h a b, t1 @ t2))
       \<and> (op = Sub \<longrightarrow> evaluate h s = (operator_sub h a b, t1 @ t2))
       \<and> (op = Mult \<longrightarrow> evaluate h s = (operator_mul h a b, t1 @ t2))
       \<and> (op = Div \<longrightarrow> evaluate h s = (operator_truediv h a b, t1 @ t2))
       \<and> (op = FloorDiv \<longrightarrow> evaluate h s = (operator_floordiv h a b, t1 @ t2))
       \<and> (op = Mod \<longrightarrow> evaluate h s = (operator_mod h a b, t1 @ t2))
       \<and> (op = Pow_op \<longrightarrow> evaluate h s = (operator_pow h a b, t1 @ t2))
       \<and> evaluate h ''2 + 3*4'' = (Inr (VInt 14), [])"
proof -
  have "evaluate h ''2 + 3*4'' = (Inr (VInt 14), [])"
    using assms(4)
    by (simp add: evaluate_def walk_def ALLOWED_BINOPS_simps operator_add_def operator_mul_def
        number_binop_def)
  then show ?thesis
    using evaluate_binop [OF assms(1,2,3)] by (simp add: ALLOWED_BINOPS_simps)
qed

theorem C3_binop_witness:
  "evaluate example_host ''2 + 3*4''
     = (operator_add example_host (VInt 2) (VInt 12), [])
   \<and> evaluate example_host ''2 + 3*4'' = (Inr (VInt 14), [])"
proof -
  have r: "safe_eval example_host (BinOp (Constant (CInt 3)) Mult (Constant (CInt 4)))
      = (Inr (VInt 12), [] @ [])"
    by (simp add: ALLOWED_BINOPS_simps operator_mul_def number_binop_def)
  have l: "safe_eval example_host (Constant (CInt 2)) = (Inr (VInt 2), [])"
    by simp
  show ?thesis
    using C3_binop_is_native_operator [OF example_parse_simps(1) l r example_parse_simps(1)]
    by (simp add: operator_add_def number_binop_def)
qed

section \<open>Precedence of power and unary minus\<close>

lemma grammar_host_agrees:
  "grammar_parse s = Some e \<Longrightarrow> ast_parse grammar_host s = Tree (Expression e)"
  by (simp add: grammar_host_def)

text \<open>
  C7: by the grammar, a minus sign before a power negates the whole power, and a power
  of a power groups to the right, whatever the numbers are; so the text \<^verbatim>\<open>-2**2\<close> parses
  as the negation of \<^verbatim>\<open>2**2\<close> and \<^verbatim>\<open>2**3**2\<close> as \<^verbatim>\<open>2**(3**2)\<close>. With a parser that
  follows the grammar, \<^verbatim>\<open>evaluate\<close> keeps that grouping and returns -4 and 512.
\<close>

theorem C7_power_and_unary_minus:
  assumes "\<And>s e. grammar_parse s = Some e \<Longrightarrow> ast_parse h s = Tree (Expression e)"
  shows "parse_tokens [MINUS, NUMBER a, DOUBLESTAR, NUMBER b]
           = Some (UnaryOp USub (BinOp (Constant (CInt a)) Pow_op (Constant (CInt b))))
       \<and> parse_tokens [NUMBER a, DOUBLESTAR, NUMBER b, DOUBLESTAR, NUMBER c]
           = Some (BinOp (Constant (CInt a)) Pow_op
               (BinOp (Constant (CInt b)) Pow_op (Constant (CInt c))))
       \<and> grammar_parse ''-2**2''
           = Some (UnaryOp USub (BinOp (Constant (CInt 2)) Pow_op (Constant (CInt 2))))
       \<and> grammar_parse ''2**3**2''
           = Some (BinOp (Constant (CInt 2)) Pow_op
               (BinOp (Constant (CInt 3)) Pow_op (Constant (CInt 2))))
       \<and> evaluate h ''-2**2'' = (Inr (VInt (- 4)), [])
       \<and> evaluate h ''2**3**2'' = (Inr (VInt 512), [])"
proof -
  have t1: "parse_tokens [MINUS, NUMBER a, DOUBLESTAR, NUMBER b]
      = Some (UnaryOp USub (BinOp (Constant (CInt a)) Pow_op (Constant (CInt b))))"
    by (simp add: parse_tokens_def eval_nat_numeral)
  have t2: "parse_tokens [NUMBER a, DOUBLESTAR, NUMBER b, DOUBLESTAR, NUMBER c]
      = Some (BinOp (Constant (CInt a)) Pow_op
          (BinOp (Constant (CInt b)) Pow_op (Constant (CInt c))))"
    by (simp add: parse_tokens_def eval_nat_numeral)
  have g1: "grammar_parse ''-2**2''
      = Some (UnaryOp USub (BinOp (Constant (CInt 2)) Pow_op (Constant (CInt 2))))"
    by code_simp
  have g2: "grammar_parse ''2**3**2''
      = Some (BinOp (Constant (CInt 2)) Pow_op
          (BinOp (Constant (CInt 3)) Pow_op (Constant (CInt 2))))"
    by code_simp
  have e1: "evaluate h ''-2**2'' = (Inr (VInt (- 4)), [])"
    using assms [OF g1]
    by (simp add: evaluate_def walk_def ALLOWED_BINOPS_simps ALLOWED_UNARYOPS_simps
        operator_pow_def number_binop_def)
  have e2: "evaluate h ''2**3**2'' = (Inr (VInt 512), [])"
    using assms [OF g2]
    by (simp add: evaluate_def walk_def ALLOWED_BINOPS_simps operator_pow_def number_binop_def)
  show ?thesis using t1 t2 g1 g2 e1 e2 by blast
qed

theorem C7_power_witness:
  "evaluate grammar_host ''-2**2'' = (Inr (VInt (- 4)), [])
   \<and> evaluate grammar_host ''2**3**2'' = (Inr (VInt 512), [])"
  using C7_power_and_unary_minus [OF grammar_host_agrees] by blast

section \<open>Division and modulo by zero\<close>

lemma py_float_real_cases:
  assumes "is_real_number a"
  shows "(\<exists>x. py_float a = Inr x) \<or> py_float a = Inl OverflowError"
  using assms by (cases a) (auto simp: int_to_double_def Let_def)

lemma py_float_zero:
  assumes "is_zero_number b"
  shows "\<exists>y. py_float b = Inr y \<and> is_zero_float y"
  using assms by (cases b) (auto simp: int_to_double_def Let_def round_half_even_def)

lemma division_by_zero:
  assumes "op = Div \<or> op = FloorDiv \<or> op = Mod"
    and "is_real_number a" and "is_zero_number b"
    and "ALLOWED_BINOPS op = Some func"
  shows "func h a b =
     Inl (if as_int b = None \<and> py_float a = Inl OverflowError
          then OverflowError else ZeroDivisionError)"
proof -
  obtain y where y: "py_float b = Inr y" "is_zero_float y"
    using py_float_zero [OF assms(3)] by blast
  have rb: "is_real_number b" using assms(3) by (cases b) auto
  show ?thesis
  proof (cases "as_int a")
    case None
    then have "number_binop h op ic a b = float_arith h op a b" for ic
      using assms(2) rb by (simp add: number_binop_def split: option.splits)
    moreover have "float_arith h op a b = Inl ZeroDivisionError"
      using y assms(1,2) None by (cases a) (auto simp: float_arith_def)
    moreover have "py_float a \<noteq> Inl OverflowError"
      using None assms(2) by (cases a) auto
    ultimately show ?thesis
      using assms(1,4)
      by (auto simp: ALLOWED_BINOPS_simps operator_truediv_def operator_floordiv_def
          operator_mod_def)
  next
    case (Some x)
    show ?thesis
    proof (cases "as_int b")
      case None
      then have nb: "number_binop h op ic a b = float_arith h op a b" for ic
        using assms(2) rb Some by (simp add: number_binop_def split: option.splits)
      have "float_arith h op a b =
          Inl (if py_float a = Inl OverflowError then OverflowError else ZeroDivisionError)"
        using y assms(1) py_float_real_cases [OF assms(2)]
        by (auto simp: float_arith_def)
      then show ?thesis
        using assms(1,4) None nb
        by (auto simp: ALLOWED_BINOPS_simps operator_truediv_def operator_floordiv_def
            operator_mod_def)
    next
      case (Some z)
      then have "z = 0" using assms(3) by (cases b) (auto split: if_splits)
      then show ?thesis
        using assms(1,4) Some \<open>as_int a = Some x\<close>
        by (auto simp: ALLOWED_BINOPS_simps operator_truediv_def operator_floordiv_def
            operator_mod_def number_binop_def)
    qed
  qed
qed

text \<open>
  What the operators do on a zero divisor: for real-number operands (int, bool or float)
  the host raises \<^verbatim>\<open>ZeroDivisionError\<close>, or \<^verbatim>\<open>OverflowError\<close> when an int too large for a
  float meets a float zero, and \<^verbatim>\<open>evaluate\<close> hands that exception on as it is.
\<close>

lemma binop_zero_divisor:
  assumes "ast_parse h s = Tree (Expression (BinOp l op r))"
    and "safe_eval h l = (Inr a, t1)"
    and "safe_eval h r = (Inr b, t2)"
    and "op = Div \<or> op = FloorDiv \<or> op = Mod"
    and "is_real_number a"
    and "is_zero_number b"
  shows "evaluate h s =
           (Inl (if as_int b = None \<and> py_float a = Inl OverflowError
                 then OverflowError else ZeroDivisionError), t1 @ t2)"
proof -
  obtain func where func: "ALLOWED_BINOPS op = Some func"
    using assms(4) by (auto simp: ALLOWED_BINOPS_simps)
  have "evaluate h s = (func h a b, t1 @ t2)"
    using assms(1,2,3) func by (rule evaluate_binop)
  then show ?thesis
    using division_by_zero [OF assms(4,5,6) func, of h] by simp
qed


section \<open>Excluded constructs\<close>

text \<open>
  What the walk does catch: let the text parse to a tree, and let \<open>n\<close> be any node of it,
  at any depth. If \<open>n\<close> is an attribute access, a subscription or a constant holding a
  string, \<^verbatim>\<open>evaluate\<close> raises one of the three errors of the walk and no whitelisted
  function has been called: the walk visits every node of the tree and runs before the
  evaluator. If \<open>n\<close> is an operator outside the allowed set, \<^verbatim>\<open>evaluate\<close> raises an error.
\<close>

lemma excluded_nodes_are_errors:
  assumes "ast_parse h s = Tree tree"
    and "n \<in> set (subnodes tree)"
  shows "set (walk tree) = set (subnodes tree)
       \<and> (forbidden n \<noteq> None \<longrightarrow>
            evaluate h s = (Inl (ValueError ''Attribute access is not allowed''), [])
          \<or> evaluate h s = (Inl (ValueError ''Subscription is not allowed''), [])
          \<or> evaluate h s = (Inl (ValueError ''String literals are not allowed''), []))
       \<and> (excluded_operator n \<longrightarrow> (\<exists>e. fst (evaluate h s) = Inl e))"
proof (intro conjI impI)
  show "set (walk tree) = set (subnodes tree)" by (rule set_walk)
next
  assume "forbidden n \<noteq> None"
  then have "check_nodes (walk tree) \<noteq> None"
    using assms(2) by (auto simp: check_nodes_None set_walk)
  then obtain e where e: "check_nodes (walk tree) = Some e" by blast
  then have "evaluate h s = (Inl e, [])"
    using assms(1) by (simp add: evaluate_def)
  then show "evaluate h s = (Inl (ValueError ''Attribute access is not allowed''), [])
      \<or> evaluate h s = (Inl (ValueError ''Subscription is not allowed''), [])
      \<or> evaluate h s = (Inl (ValueError ''String literals are not allowed''), [])"
    using check_nodes_messages [OF e] by auto
next
  assume "excluded_operator n"
  then have n: "\<not> supported n" by (rule excluded_operator_unsupported)
  show "\<exists>e. fst (evaluate h s) = Inl e"
  proof (cases "check_nodes (walk tree)")
    case None
    then have "evaluate h s = safe_eval h tree"
      using assms(1) by (simp add: evaluate_def)
    then show ?thesis using unsupported_node_is_error [OF assms(2) n, of h] by simp
  next
    case (Some e)
    then show ?thesis using assms(1) by (simp add: evaluate_def)
  qed
qed

text \<open>
  C1: the walk of lines 137 to 143 misses a string literal. The text
  \<^verbatim>\<open>abs(1) + f'{1}'\<close> holds a formatted string literal, which the host parses to a
  \<^verbatim>\<open>JoinedStr\<close> node with no constant that holds a string. The walk finds none of its
  three classes in the tree and lets it pass; the evaluator then calls \<^verbatim>\<open>abs\<close> on 1, and
  only afterwards raises, at line 124, the error for an unsupported expression and not
  the one for string literals.
\<close>

theorem C1_formatted_string_passes_the_walk:
  "check_nodes (walk (Expression (BinOp (Call (Name ''abs'') [Constant (CInt 1)] []) Add
      (Other ''JoinedStr'' [Other ''FormattedValue'' [Constant (CInt 1)]])))) = None
   \<and> evaluate example_host formatted_string_text
       = (Inl (ValueError ''Unsupported expression: <node>''), [(''abs'', [VInt 1])])"
  by (simp add: evaluate_def example_parse_simps walk_def ALLOWED_BINOPS_simps
      ALLOWED_NAMES_examples unsupported_def example_host_simps)

section \<open>Keyword arguments\<close>

lemma eval_each_passes_walk:
  assumes "eval_each h ns = (Inr vs, t)" and "a \<in> set ns" and "n \<in> set (subnodes a)"
  shows "forbidden n = None"
proof -
  obtain v t' where "safe_eval h a = (Inr v, t')"
    using eval_each_Inr_elems [OF assms(1,2)] by blast
  then show ?thesis
    using safe_eval_ok_supported assms(3) forbidden_unsupported by blast
qed

text \<open>Every call with a keyword argument is an error, whatever is called.\<close>

lemma keyword_call_is_error:
  assumes "ast_parse h s = Tree tree"
    and "Call func args kws \<in> set (subnodes tree)" and "kws \<noteq> []"
  shows "\<exists>e. fst (evaluate h s) = Inl e"
proof -
  have n: "\<not> supported (Call func args kws)"
    using assms(3) by (cases func) auto
  show ?thesis
  proof (cases "check_nodes (walk tree)")
    case None
    then have "evaluate h s = safe_eval h tree"
      using assms(1) by (simp add: evaluate_def)
    then show ?thesis using unsupported_node_is_error [OF assms(2) n, of h] by simp
  next
    case (Some e)
    then show ?thesis using assms(1) by (simp add: evaluate_def)
  qed
qed

text \<open>
  C6: a text that has parsed and holds, at any depth, a call with a keyword argument is
  always an error of \<^verbatim>\<open>evaluate\<close>. When the text is such a call of a whitelisted
  function, its positional arguments evaluate and the walk has passed, the error is the
  dedicated ``Keyword arguments are not supported'', which no syntax error is; it is
  raised after the positional arguments were evaluated (their calls are in the trace)
  and before the function is called. The same call without keywords calls the function
  on the values of its positional arguments.
\<close>

theorem C6_keyword_arguments_rejected:
  assumes "ast_parse h s = Tree tree"
    and "Call func args kws \<in> set (subnodes tree)"
    and "kws \<noteq> []"
  shows "(\<exists>e. fst (evaluate h s) = Inl e)
       \<and> (tree = Expression (Call func args kws) \<and> func = Name f
            \<and> ALLOWED_NAMES f = Some v \<and> callable v
            \<and> eval_each h args = (Inr vs, t) \<and> check_nodes (walk tree) = None \<longrightarrow>
            evaluate h s = (Inl (ValueError ''Keyword arguments are not supported''), t))
       \<and> ValueError ''Keyword arguments are not supported'' \<noteq> ValueError (''Syntax error: '' @ d)
       \<and> (func = Name f \<and> ALLOWED_NAMES f = Some v \<and> callable v
            \<and> eval_each h args = (Inr vs, t) \<and> f \<noteq> ''factorial'' \<longrightarrow>
            safe_eval h (Call func args []) = (call_builtin h f vs, t @ [(f, vs)]))"
proof (intro conjI impI)
  show "\<exists>e. fst (evaluate h s) = Inl e"
    using assms by (rule keyword_call_is_error)
next
  assume a: "tree = Expression (Call func args kws) \<and> func = Name f
      \<and> ALLOWED_NAMES f = Some v \<and> callable v
      \<and> eval_each h args = (Inr vs, t) \<and> check_nodes (walk tree) = None"
  then have w: "check_nodes (walk tree) = None" by blast
  have "evaluate h s = safe_eval h tree"
    using assms(1) w by (rule evaluate_passed_walk)
  then show "evaluate h s = (Inl (ValueError ''Keyword arguments are not supported''), t)"
    using a assms(3) by simp
next
  show "ValueError ''Keyword arguments are not supported'' \<noteq> ValueError (''Syntax error: '' @ d)"
    by simp
next
  assume a: "func = Name f \<and> ALLOWED_NAMES f = Some v \<and> callable v
      \<and> eval_each h args = (Inr vs, t) \<and> f \<noteq> ''factorial''"
  then have "v = VFunc f" using callable_name_is_function by blast
  then show "safe_eval h (Call func args []) = (call_builtin h f vs, t @ [(f, vs)])"
    using a by simp
qed

theorem C6_keyword_arguments_witness:
  "evaluate example_host ''round(1.5, ndigits=0)''
     = (Inl (ValueError ''Keyword arguments are not supported''), [])"
proof -
  have args: "eval_each example_host [Constant (CFloat (Finite (3 / 2)))]
      = (Inr [VFloat (Finite (3 / 2))], [])"
    by simp
  have w: "check_nodes (walk (Expression (Call (Name ''round'')
      [Constant (CFloat (Finite (3 / 2)))] [Keyword (Some ''ndigits'') (Constant (CInt 0))])))
      = None"
    by (simp add: walk_def)
  have m: "Call (Name ''round'') [Constant (CFloat (Finite (3 / 2)))]
      [Keyword (Some ''ndigits'') (Constant (CInt 0))]
      \<in> set (subnodes (Expression (Call (Name ''round'')
      [Constant (CFloat (Finite (3 / 2)))] [Keyword (Some ''ndigits'') (Constant (CInt 0))])))"
    by simp
  show ?thesis
    using C6_keyword_arguments_rejected [OF example_parse_simps(14) m,
        where f = "''round''" and v = "VFunc ''round''"
          and vs = "[VFloat (Finite (3 / 2))]" and t = "[]"]
      args w
    by (simp add: ALLOWED_NAMES_examples)
qed

section \<open>Tuples\<close>

lemma eval_each_all:
  assumes "list_all2 (\<lambda>e (v, t). safe_eval h e = (Inr v, t)) elts results"
  shows "eval_each h elts = (Inr (map fst results), concat (map snd results))"
  using assms
  by (induction elts results rule: list_all2_induct) (auto split: prod.splits)

text \<open>
  C10: a text that parses to a top-level tuple whose elements evaluate to the values
  \<open>v\<^sub>1, \<dots>, v\<^sub>n\<close> evaluates to the tuple of these values, in order; it is neither a number
  nor an error.
\<close>

theorem C10_top_level_tuple:
  assumes "ast_parse h s = Tree (Expression (Tuple elts))"
    and "list_all2 (\<lambda>e (v, t). safe_eval h e = (Inr v, t)) elts results"
  shows "evaluate h s = (Inr (VTuple (map fst results)), concat (map snd results))"
proof -
  have "safe_eval h (Expression (Tuple elts))
      = (Inr (VTuple (map fst results)), concat (map snd results))"
    using eval_each_all [OF assms(2)] by simp
  moreover from this have "check_nodes (walk (Expression (Tuple elts))) = None"
    by (rule safe_eval_ok_passes_walk)
  ultimately show ?thesis
    using evaluate_passed_walk [OF assms(1)] by simp
qed

theorem C10_top_level_tuple_witness:
  "evaluate example_host ''1, 2'' = (Inr (VTuple [VInt 1, VInt 2]), [])"
  using C10_top_level_tuple [OF example_parse_simps(7),
      of "[(VInt 1, []), (VInt 2, [])]"]
  by simp

section \<open>The guard of factorial\<close>

lemma int_to_double_small:
  assumes "\<bar>n\<bar> < 2 ^ 53"
  shows "int_to_double n = Inr (Finite (of_int n))"
proof -
  have "bitlen \<bar>n\<bar> \<le> 53" using assms by (simp add: bitlen_le_iff_power)
  then have "nat (bitlen \<bar>n\<bar> - 53) = 0" by simp
  moreover have "\<bar>n\<bar> < 2 ^ 1024"
    using assms by (rule less_trans) simp
  ultimately show ?thesis
    by (auto simp: int_to_double_def round_half_even_def Let_def)
qed

lemma int_to_double_is_integer:
  assumes "int_to_double n = Inr f"
  shows "is_integer f"
  using assms by (auto simp: int_to_double_def Let_def split: if_splits)

lemma int_to_double_cases:
  "int_to_double n = Inl OverflowError \<or> (\<exists>f. int_to_double n = Inr f)"
  by (auto simp: int_to_double_def Let_def)

lemma round_half_even_bounds:
  "m div 2 ^ s \<le> round_half_even m s" "round_half_even m s \<le> m div 2 ^ s + 1"
  by (simp_all add: round_half_even_def Let_def)

lemma int_to_double_overflow_iff:
  "int_to_double n = Inl OverflowError \<longleftrightarrow> 2 ^ 1024 - 2 ^ 970 \<le> \<bar>n\<bar>"
proof -
  define m where "m = \<bar>n\<bar>"
  define s where "s = nat (bitlen m - 53)"
  define q where "q = m div 2 ^ s"
  define r where "r = m mod 2 ^ s"
  define v where "v = round_half_even m s * 2 ^ s"
  have ov: "int_to_double n = Inl OverflowError \<longleftrightarrow> 2 ^ 1024 \<le> v"
    by (simp add: int_to_double_def Let_def m_def s_def v_def)
  have m0: "0 \<le> m" by (simp add: m_def)
  have P: "(0::int) < 2 ^ s" by simp
  have mqr: "m = q * 2 ^ s + r"
    unfolding q_def r_def by (rule div_mult_mod_eq [symmetric])
  have r0: "0 \<le> r" and rP: "r < 2 ^ s"
    by (simp_all add: r_def)
  have rhe: "q \<le> round_half_even m s" "round_half_even m s \<le> q + 1"
    using round_half_even_bounds [of m s] by (simp_all add: q_def)
  have up: "round_half_even m s = q + 1 \<longleftrightarrow> 2 ^ s < 2 * r \<or> (2 * r = 2 ^ s \<and> odd q)"
    by (simp add: round_half_even_def Let_def q_def r_def)
  show ?thesis
  proof (cases "m < 2 ^ 53")
    case True
    then have "bitlen m \<le> 53" by (simp add: bitlen_le_iff_power)
    then have "s = 0" by (simp add: s_def)
    then have "v = m" by (simp add: v_def round_half_even_def Let_def)
    then show ?thesis using True ov by (simp add: m_def)
  next
    case False
    then have big: "2 ^ 53 \<le> m" by simp
    then have mpos: "0 < m" by (rule less_le_trans [rotated]) simp
    have "54 \<le> bitlen m" using big by (simp add: bitlen_ge_iff_power)
    then have bl: "bitlen m = int s + 53" by (simp add: s_def)
    have lo: "2 ^ (s + 52) \<le> m" and hi: "m < 2 ^ (s + 53)"
      using bitlen_bounds [OF mpos] bl by (simp_all add: nat_add_distrib add.commute)
    define P where "P = (2::int) ^ s"
    have mP: "m = q * P + r" and rltP: "r < P" using mqr rP by (simp_all add: P_def)
    have loP: "2 ^ 52 * P \<le> m" and hiP: "m < 2 ^ 53 * P"
      using lo hi by (simp_all add: P_def power_add mult.commute)
    have P0: "0 \<le> P" by (simp add: P_def)
    have qhi: "q < 2 ^ 53"
    proof (rule ccontr)
      assume "\<not> q < 2 ^ 53"
      then have "2 ^ 53 \<le> q" by simp
      then have "2 ^ 53 * P \<le> q * P" using P0 by (rule mult_right_mono)
      then show False using hiP mP r0 by linarith
    qed
    have qlo: "2 ^ 52 \<le> q"
    proof (rule ccontr)
      assume "\<not> 2 ^ 52 \<le> q"
      then have "q + 1 \<le> 2 ^ 52" by simp
      then have "(q + 1) * P \<le> 2 ^ 52 * P" using P0 by (rule mult_right_mono)
      moreover have "(q + 1) * P = q * P + P" by (simp add: algebra_simps)
      ultimately show False using loP mP rltP by linarith
    qed
    consider "s \<le> 970" | "s = 971" | "972 \<le> s" by linarith
    then show ?thesis
    proof cases
      case 1
      then have "(2::int) ^ s \<le> 2 ^ 970" by (intro power_increasing) simp_all
      moreover have "round_half_even m s \<le> 2 ^ 53" using rhe(2) qhi by simp
      moreover have "0 \<le> round_half_even m s" using rhe(1) qlo by simp
      ultimately have "v \<le> 2 ^ 53 * 2 ^ 970"
        unfolding v_def by (intro mult_mono) simp_all
      then have nv: "\<not> 2 ^ 1024 \<le> v" by simp
      have "(2::int) ^ (s + 53) \<le> 2 ^ 1023" using 1 by (intro power_increasing) simp_all
      then have "m < 2 ^ 1023" using hi by simp
      then show ?thesis using ov nv by (simp add: m_def)
    next
      case 3
      then have "(2::int) ^ 972 \<le> 2 ^ s" by (intro power_increasing) simp_all
      then have "2 ^ 52 * 2 ^ 972 \<le> q * (2 ^ s :: int)"
        using qlo by (intro mult_mono) simp_all
      moreover have "q * 2 ^ s \<le> v"
        unfolding v_def using rhe(1) by (simp add: mult_right_mono)
      ultimately have yv: "2 ^ 1024 \<le> v" by simp
      have "(2::int) ^ 1024 \<le> 2 ^ (s + 52)" using 3 by (intro power_increasing) simp_all
      then have "2 ^ 1024 \<le> m" using lo by simp
      then show ?thesis using ov yv by (simp add: m_def)
    next
      case 2
      have m971: "m = q * 2 ^ 971 + r" and r971: "r < 2 ^ 971" using mqr rP 2 by simp_all
      have v971: "v = round_half_even m s * 2 ^ 971" using 2 by (simp add: v_def)
      have up971: "round_half_even m s = q + 1 \<longleftrightarrow> 2 ^ 971 < 2 * r \<or> (2 * r = 2 ^ 971 \<and> odd q)"
        using up 2 by simp
      show ?thesis
      proof (cases "q = 2 ^ 53 - 1")
        case True
        then have oq: "odd q" by simp
        have "2 ^ 1024 \<le> v \<longleftrightarrow> round_half_even m s = q + 1"
        proof
          assume "2 ^ 1024 \<le> v"
          then have "\<not> round_half_even m s * 2 ^ 971 \<le> q * (2 ^ 971 :: int)"
            using v971 True by simp
          then have "round_half_even m s \<noteq> q" by auto
          then show "round_half_even m s = q + 1" using rhe by linarith
        next
          assume "round_half_even m s = q + 1"
          then show "2 ^ 1024 \<le> v" using v971 True by simp
        qed
        also have "\<dots> \<longleftrightarrow> 2 ^ 970 \<le> r" using up971 oq by auto
        also have "\<dots> \<longleftrightarrow> 2 ^ 1024 - 2 ^ 970 \<le> m" using m971 True by simp
        finally show ?thesis using ov by (simp add: m_def)
      next
        case False
        then have q2: "q \<le> 2 ^ 53 - 2" using qhi by simp
        then have "round_half_even m s \<le> 2 ^ 53 - 1" using rhe(2) by simp
        then have "round_half_even m s * 2 ^ 971 \<le> (2 ^ 53 - 1) * (2 ^ 971 :: int)"
          by (intro mult_right_mono) simp_all
        then have nv: "\<not> 2 ^ 1024 \<le> v" using v971 by simp
        have "q * 2 ^ 971 \<le> (2 ^ 53 - 2) * (2 ^ 971 :: int)"
          using q2 by (intro mult_right_mono) simp_all
        then have "\<not> 2 ^ 1024 - 2 ^ 970 \<le> m" using m971 r971 by simp
        then show ?thesis using ov nv by (simp add: m_def)
      qed
    qed
  qed
qed

lemma py_float_overflow_iff:
  "py_float v = Inl OverflowError \<longleftrightarrow> (\<exists>k. v = VInt k \<and> 2 ^ 1024 - 2 ^ 970 \<le> \<bar>k\<bar>)"
  by (cases v) (simp_all add: int_to_double_overflow_iff)

lemma factorial_guard_number:
  assumes "is_real_number v" and "py_float v \<noteq> Inl OverflowError"
  shows "factorial_guard [v] = Inr (nonneg_integer v = None)"
    and "nonneg_integer v = Some n \<Longrightarrow> py_int v = Inr n"
proof -
  show "factorial_guard [v] = Inr (nonneg_integer v = None)"
  proof (cases v)
    case (VInt k)
    then obtain f where f: "int_to_double k = Inr f"
      using assms(2) int_to_double_cases [of k] by auto
    then show ?thesis
      using VInt int_to_double_is_integer [OF f] by (simp add: factorial_guard_def)
  next
    case (VBool b)
    then show ?thesis by (simp add: factorial_guard_def)
  next
    case (VFloat f)
    then show ?thesis by (cases f) (auto simp: factorial_guard_def)
  qed (use assms(1) in auto)
  show "py_int v = Inr n" if "nonneg_integer v = Some n"
  proof (cases v)
    case (VFloat f)
    then show ?thesis using that by (cases f) (auto simp: trunc_def split: if_splits)
  qed (use that in \<open>auto split: if_splits\<close>)
qed

lemma nonneg_integer_nonneg: "nonneg_integer v = Some n \<Longrightarrow> 0 \<le> n"
  by (cases v rule: nonneg_integer.cases) (auto split: if_splits)

lemma call_factorial_number:
  assumes "is_real_number v" and "py_float v \<noteq> Inl OverflowError"
  shows "call_factorial h [v] =
     (case nonneg_integer v of
        None \<Rightarrow> (Inl (ValueError ''factorial() requires a single non-negative integer''), [])
      | Some n \<Rightarrow>
          (if long_max h < n then Inl OverflowError else Inr (VInt (fact (nat n))),
           [(''factorial'', [VInt n])]))"
proof (cases "nonneg_integer v")
  case None
  then show ?thesis
    using factorial_guard_number(1) [OF assms] by (simp add: call_factorial_def)
next
  case (Some n)
  then show ?thesis
    using factorial_guard_number [OF assms] nonneg_integer_nonneg [OF Some]
    by (simp add: call_factorial_def math_factorial_def)
qed

lemma call_factorial_overflow:
  assumes "py_float v = Inl OverflowError"
  shows "call_factorial h [v] = (Inl OverflowError, [])"
  using assms by (simp add: call_factorial_def factorial_guard_def)

lemma call_factorial_arity:
  assumes "length vs \<noteq> 1"
  shows "call_factorial h vs =
     (Inl (ValueError ''factorial() requires a single non-negative integer''), [])"
proof -
  have "factorial_guard vs = Inr True"
    using assms by (cases vs) (auto simp: factorial_guard_def split: list.splits)
  then show ?thesis by (simp add: call_factorial_def)
qed

lemma walk_of_call:
  assumes "eval_each h args = (Inr vs, t)"
  shows "check_nodes (walk (Expression (Call (Name f) args []))) = None"
proof -
  have "forbidden n = None"
    if mem: "n \<in> set (subnodes (Expression (Call (Name f) args [])))" for n
  proof -
    consider "n = Expression (Call (Name f) args [])" | "n = Call (Name f) args []"
      | "n = Name f" | a where "a \<in> set args" "n \<in> set (subnodes a)"
      using mem by auto
    then show ?thesis
    proof cases
      case 4
      then show ?thesis using eval_each_passes_walk [OF assms] by blast
    qed auto
  qed
  then show ?thesis by (simp add: check_nodes_None set_walk)
qed

lemma evaluate_factorial:
  assumes "ast_parse h s = Tree (Expression (Call (Name ''factorial'') args []))"
    and "eval_each h args = (Inr vs, t)"
  shows "evaluate h s = after t (call_factorial h vs)"
  using evaluate_passed_walk [OF assms(1) walk_of_call [OF assms(2)]] assms(2)
  by (simp add: ALLOWED_NAMES_examples)

text \<open>
  C4 (as the code has it): take a call of \<^verbatim>\<open>factorial\<close> without keywords whose arguments
  evaluate. If there is not exactly one argument, the call fails with the \<^verbatim>\<open>ValueError\<close>
  of the guard. If the one argument is an int \<open>k\<close> with \<open>\<bar>k\<bar> \<ge> 2\<^sup>1\<^sup>0\<^sup>2\<^sup>4 - 2\<^sup>9\<^sup>7\<^sup>0\<close>, too large
  for \<^verbatim>\<open>float()\<close>, the call raises \<^verbatim>\<open>OverflowError\<close>, whatever the sign of \<open>k\<close>. Otherwise,
  if the one argument is an int, bool or float, the call fails with the \<^verbatim>\<open>ValueError\<close> of
  the guard when the value is negative or is a float that is not an integer; when it is
  a non-negative integer \<open>n\<close> it returns the factorial of \<open>n\<close> if \<open>n\<close> is at most the
  host's largest C \<^verbatim>\<open>long\<close>, and raises \<^verbatim>\<open>OverflowError\<close> above it. \<^verbatim>\<open>factorial(5)\<close> is 120;
  \<^verbatim>\<open>factorial(-1)\<close> and \<^verbatim>\<open>factorial(2.5)\<close> fail with the \<^verbatim>\<open>ValueError\<close> of the guard.
\<close>

theorem C4_factorial_guard:
  assumes "ast_parse h s = Tree (Expression (Call (Name ''factorial'') args []))"
    and "eval_each h args = (Inr vs, t)"
    and "ast_parse h ''factorial(5)'' =
      Tree (Expression (Call (Name ''factorial'') [Constant (CInt 5)] []))"
    and "ast_parse h ''factorial(-1)'' =
      Tree (Expression (Call (Name ''factorial'') [UnaryOp USub (Constant (CInt 1))] []))"
    and "ast_parse h ''factorial(2.5)'' =
      Tree (Expression (Call (Name ''factorial'') [Constant (CFloat (Finite (5 / 2)))] []))"
    and "5 \<le> long_max h"
  shows "(length vs \<noteq> 1 \<longrightarrow>
            evaluate h s =
              (Inl (ValueError ''factorial() requires a single non-negative integer''), t))
       \<and> (vs = [VInt k] \<and> 2 ^ 1024 - 2 ^ 970 \<le> \<bar>k\<bar> \<longrightarrow>
            evaluate h s = (Inl OverflowError, t))
       \<and> (vs = [v] \<and> is_real_number v \<and> (\<forall>j. v = VInt j \<longrightarrow> \<bar>j\<bar> < 2 ^ 1024 - 2 ^ 970) \<longrightarrow>
            evaluate h s =
              (case nonneg_integer v of
                 None \<Rightarrow>
                   (Inl (ValueError ''factorial() requires a single non-negative integer''), t)
               | Some n \<Rightarrow>
                   (if long_max h < n then Inl OverflowError else Inr (VInt (fact (nat n))),
                    t @ [(''factorial'', [VInt n])])))
       \<and> evaluate h ''factorial(5)'' = (Inr (VInt 120), [(''factorial'', [VInt 5])])
       \<and> evaluate h ''factorial(-1)'' =
           (Inl (ValueError ''factorial() requires a single non-negative integer''), [])
       \<and> evaluate h ''factorial(2.5)'' =
           (Inl (ValueError ''factorial() requires a single non-negative integer''), [])"
proof (intro conjI impI)
  assume "length vs \<noteq> 1"
  then show "evaluate h s =
      (Inl (ValueError ''factorial() requires a single non-negative integer''), t)"
    using evaluate_factorial [OF assms(1,2)] by (simp add: call_factorial_arity)
next
  assume k: "vs = [VInt k] \<and> 2 ^ 1024 - 2 ^ 970 \<le> \<bar>k\<bar>"
  then have "py_float (VInt k) = Inl OverflowError"
    unfolding py_float_overflow_iff by blast
  then have "call_factorial h vs = (Inl OverflowError, [])"
    using k call_factorial_overflow by blast
  then show "evaluate h s = (Inl OverflowError, t)"
    using evaluate_factorial [OF assms(1,2)] by simp
next
  assume v: "vs = [v] \<and> is_real_number v \<and> (\<forall>j. v = VInt j \<longrightarrow> \<bar>j\<bar> < 2 ^ 1024 - 2 ^ 970)"
  then have "py_float v \<noteq> Inl OverflowError"
    unfolding py_float_overflow_iff by auto
  then have "call_factorial h vs =
     (case nonneg_integer v of
        None \<Rightarrow> (Inl (ValueError ''factorial() requires a single non-negative integer''), [])
      | Some n \<Rightarrow>
          (if long_max h < n then Inl OverflowError else Inr (VInt (fact (nat n))),
           [(''factorial'', [VInt n])]))"
    using call_factorial_number [of v h] v by simp
  then show "evaluate h s =
      (case nonneg_integer v of
         None \<Rightarrow> (Inl (ValueError ''factorial() requires a single non-negative integer''), t)
       | Some n \<Rightarrow>
           (if long_max h < n then Inl OverflowError else Inr (VInt (fact (nat n))),
            t @ [(''factorial'', [VInt n])]))"
    using evaluate_factorial [OF assms(1,2)] by (simp split: option.splits)
next
  have a: "eval_each h [Constant (CInt 5)] = (Inr [VInt 5], [])" by simp
  have f: "py_float (VInt 5) \<noteq> Inl OverflowError"
    by (simp add: int_to_double_small)
  show "evaluate h ''factorial(5)'' = (Inr (VInt 120), [(''factorial'', [VInt 5])])"
    using evaluate_factorial [OF assms(3) a] call_factorial_number [OF _ f, of h] assms(6)
    by (simp add: fact_numeral)
next
  have a: "eval_each h [UnaryOp USub (Constant (CInt 1))] = (Inr [VInt (- 1)], [])"
    by (simp add: ALLOWED_UNARYOPS_simps)
  have f: "py_float (VInt (- 1)) \<noteq> Inl OverflowError"
    by (simp add: int_to_double_small)
  show "evaluate h ''factorial(-1)'' =
      (Inl (ValueError ''factorial() requires a single non-negative integer''), [])"
    using evaluate_factorial [OF assms(4) a] call_factorial_number [OF _ f, of h]
    by simp
next
  have a: "eval_each h [Constant (CFloat (Finite (5 / 2)))] = (Inr [VFloat (Finite (5 / 2))], [])"
    by simp
  have i: "\<not> is_integer (Finite (5 / 2))"
    using floor_divide_of_int_eq [of 5 2, where ?'a = rat] by simp
  show "evaluate h ''factorial(2.5)'' =
      (Inl (ValueError ''factorial() requires a single non-negative integer''), [])"
    using evaluate_factorial [OF assms(5) a] i
    by (simp add: call_factorial_def factorial_guard_def)
qed

theorem C4_factorial_guard_witness:
  "evaluate example_host ''factorial(5)'' = (Inr (VInt 120), [(''factorial'', [VInt 5])])
   \<and> evaluate example_host ''factorial(-1)'' =
       (Inl (ValueError ''factorial() requires a single non-negative integer''), [])
   \<and> evaluate example_host ''factorial(2.5)'' =
       (Inl (ValueError ''factorial() requires a single non-negative integer''), [])"
proof -
  have a: "eval_each example_host [Constant (CInt 5)] = (Inr [VInt 5], [])" by simp
  have l: "5 \<le> long_max example_host" by (simp add: example_host_simps)
  show ?thesis
    using C4_factorial_guard [OF example_parse_simps(9) a example_parse_simps(9)
        example_parse_simps(10) example_parse_simps(11) l]
    by simp
qed

text \<open>
  The claim as the spec words it fails twice: a non-negative integer above the largest C
  \<^verbatim>\<open>long\<close> does not succeed, and an argument that is not a number fails with the
  \<^verbatim>\<open>TypeError\<close> of \<^verbatim>\<open>float()\<close>, not with the error of the guard.
\<close>

theorem C4_counterexample:
  "evaluate example_host ''factorial(2**63)''
     = (Inl OverflowError, [(''factorial'', [VInt 9223372036854775808])])
   \<and> evaluate example_host ''factorial((1, 2))'' = (Inl TypeError, [])"
proof -
  have p: "safe_eval example_host (BinOp (Constant (CInt 2)) Pow_op (Constant (CInt 63)))
      = (Inr (VInt 9223372036854775808), [])"
    by (simp add: ALLOWED_BINOPS_simps operator_pow_def number_binop_def)
  have d: "int_to_double 9223372036854775808 = Inr (Finite 9223372036854775808)"
    by code_simp
  have "evaluate example_host ''factorial(2**63)''
     = (Inl OverflowError, [(''factorial'', [VInt 9223372036854775808])])"
    using p d
    by (simp add: evaluate_def example_parse_simps walk_def ALLOWED_NAMES_examples
        call_factorial_def factorial_guard_def math_factorial_def example_host_simps)
  moreover have "evaluate example_host ''factorial((1, 2))'' = (Inl TypeError, [])"
    by (simp add: evaluate_def example_parse_simps walk_def ALLOWED_NAMES_examples
        call_factorial_def factorial_guard_def)
  ultimately show ?thesis by simp
qed


end
